theory Spec2Isabelle
  imports Complex_Main
begin

section \<open>Magics input adapters of nmc\_met\_graphics (magics/util.py)\<close>

text \<open>
  The module prepares numpy arrays for the plotting library's \<^verbatim>\<open>minput\<close> constructor.
  The embedding below follows \<^verbatim>\<open>src/nmc_met_graphics/magics/util.py\<close> function by
  function. Every exception numpy or Python raises on the way is a value of \<open>error\<close>.
\<close>

subsection \<open>Array elements\<close>

text \<open>
  An element of a float64 array is a finite number, an infinity or NaN. The code never
  does arithmetic on elements: it compares them with region bounds and tests them with
  \<^verbatim>\<open>np.isnan\<close>. Finite values are carried as rationals (every finite double is one), so
  the order on them is the order of the numbers they denote.
\<close>

datatype f64 = Fin rat | PInf | NInf | NaN

text \<open>IEEE comparison \<^verbatim>\<open>a <= b\<close>: false as soon as one side is NaN.\<close>

fun f64_le :: "f64 \<Rightarrow> f64 \<Rightarrow> bool" where
  "f64_le NaN b = False"
| "f64_le a NaN = False"
| "f64_le NInf b = True"
| "f64_le a PInf = True"
| "f64_le (Fin x) (Fin y) = (x \<le> y)"
| "f64_le PInf b = False"
| "f64_le a NInf = False"

text \<open>\<^verbatim>\<open>a >= b\<close> is \<^verbatim>\<open>b <= a\<close>.\<close>

definition f64_ge :: "f64 \<Rightarrow> f64 \<Rightarrow> bool" where
  "f64_ge a b = f64_le b a"

text \<open>\<^verbatim>\<open>np.isnan\<close> is true of NaN only: both infinities pass.\<close>

fun isnan :: "f64 \<Rightarrow> bool" where
  "isnan NaN = True"
| "isnan x = False"

fun isfinite :: "f64 \<Rightarrow> bool" where
  "isfinite (Fin x) = True"
| "isfinite x = False"

subsection \<open>Exceptions\<close>

datatype error =
    IndexError_out_of_range         \<comment> \<open>sequence index out of range\<close>
  | IndexError_too_many_indices     \<comment> \<open>two slices applied to an array of fewer than two axes\<close>
  | ValueError_slice_step_zero      \<comment> \<open>\<^verbatim>\<open>a[::0]\<close>\<close>
  | ValueError_broadcast            \<comment> \<open>operands could not be broadcast together\<close>
  | IndexError_boolean_mismatch     \<comment> \<open>boolean index did not match the indexed array\<close>
  | KeyError string                 \<comment> \<open>no variable or dimension of that name\<close>

subsection \<open>One-dimensional masks\<close>

text \<open>\<^verbatim>\<open>m1 & m2\<close> on two masks computed from the same vector (equal lengths).\<close>

definition mask_and :: "bool list \<Rightarrow> bool list \<Rightarrow> bool list" where
  "mask_and m1 m2 = map (\<lambda>(p, q). p \<and> q) (zip m1 m2)"

text \<open>\<^verbatim>\<open>xs[mask]\<close>: the entries of \<open>xs\<close> at the positions where the mask is true, in order.\<close>

definition compress :: "bool list \<Rightarrow> 'a list \<Rightarrow> 'a list" where
  "compress m xs = map fst (filter snd (zip xs m))"

text \<open>\<^verbatim>\<open>seq[k]\<close> for a constant index \<open>k \<ge> 0\<close>.\<close>

definition getitem :: "'a list \<Rightarrow> nat \<Rightarrow> error + 'a" where
  "getitem xs k = (if k < length xs then Inr (xs ! k) else Inl IndexError_out_of_range)"

subsection \<open>Stride estimator: \<^verbatim>\<open>get_skip_vector\<close>\<close>

text \<open>
  \<^verbatim>\<open>math.ceil(len(v) / c)\<close> for a length and a positive constant. Python divides two
  doubles and rounds the quotient up to an integer. For every length below \<open>2 ^ 53\<close> the
  rounded quotient lies on the same side of every integer as the exact one (integers of
  that size are doubles and rounding is monotone, and a non-integral \<open>n / 60\<close> is at
  least \<open>1 / 60\<close> away from an integer), so the exact ceiling is what the code computes.
\<close>

definition ceil_div :: "nat \<Rightarrow> nat \<Rightarrow> int" where
  "ceil_div n c = \<lceil>real n / real c\<rceil>"

text \<open>
  \<^verbatim>\<open>lon\<close> and \<^verbatim>\<open>lat\<close> are the 1-D coordinate vectors; \<^verbatim>\<open>map_region\<close> is \<^verbatim>\<open>None\<close> or a
  sequence read at the indices 0 to 3 (a shorter one raises IndexError).
\<close>

definition get_skip_vector :: "f64 list \<Rightarrow> f64 list \<Rightarrow> f64 list option \<Rightarrow> error + int" where
  "get_skip_vector lon lat map_region =
     (case map_region of
        Some r \<Rightarrow>
          (case getitem r 0 of Inl e \<Rightarrow> Inl e | Inr r0 \<Rightarrow>
           case getitem r 1 of Inl e \<Rightarrow> Inl e | Inr r1 \<Rightarrow>
           case getitem r 2 of Inl e \<Rightarrow> Inl e | Inr r2 \<Rightarrow>
           case getitem r 3 of Inl e \<Rightarrow> Inl e | Inr r3 \<Rightarrow>
             (let lon1 = compress (mask_and (map (\<lambda>x. f64_ge x r0) lon) (map (\<lambda>x. f64_le x r1) lon)) lon;
                  lat1 = compress (mask_and (map (\<lambda>y. f64_ge y r2) lat) (map (\<lambda>y. f64_le y r3) lat)) lat
              in Inr (max (ceil_div (length lon1) 60) (ceil_div (length lat1) 30))))
      | None \<Rightarrow>
          (let lon1 = lon; lat1 = lat
           in Inr (max (ceil_div (length lon1) 60) (ceil_div (length lat1) 30))))"

text \<open>
  The specification's reading, for comparison: a value lies in the region when it is
  between the two bounds, and the stride is computed from the number of entries that do.
\<close>

definition in_bounds :: "f64 \<Rightarrow> f64 \<Rightarrow> f64 \<Rightarrow> bool" where
  "in_bounds lo hi x = (f64_le lo x \<and> f64_le x hi)"

definition count_within :: "f64 \<Rightarrow> f64 \<Rightarrow> f64 list \<Rightarrow> nat" where
  "count_within lo hi xs = length (filter (in_bounds lo hi) xs)"

definition spec_stride :: "nat \<Rightarrow> nat \<Rightarrow> int" where
  "spec_stride nlon nlat = max \<lceil>real nlon / 60\<rceil> \<lceil>real nlat / 30\<rceil>"

subsection \<open>N-dimensional arrays\<close>

text \<open>
  A numpy array is its shape and its elements in row-major (C) order; numpy keeps
  \<open>length (nd_data a) = prod_list (nd_shape a)\<close>. A 0-d array has shape \<open>[]\<close>.
\<close>

record 'a ndarray =
  nd_shape :: "nat list"
  nd_data :: "'a list"

definition nd_valid :: "'a ndarray \<Rightarrow> bool" where
  "nd_valid a = (length (nd_data a) = prod_list (nd_shape a))"

text \<open>\<^verbatim>\<open>a.size\<close>, the number of elements.\<close>

definition nd_size :: "'a ndarray \<Rightarrow> nat" where
  "nd_size a = length (nd_data a)"

text \<open>
  \<^verbatim>\<open>a.astype(np.float64)\<close>: the arguments are float64 arrays already (the docstrings
  type them so), and the cast copies them unchanged.
\<close>

definition astype_float64 :: "f64 ndarray \<Rightarrow> f64 ndarray" where
  "astype_float64 a = a"

text \<open>\<^verbatim>\<open>np.squeeze\<close> drops every axis of length one and keeps the elements.\<close>

definition squeeze :: "'a ndarray \<Rightarrow> 'a ndarray" where
  "squeeze a = a\<lparr>nd_shape := filter (\<lambda>d. d \<noteq> 1) (nd_shape a)\<rparr>"

text \<open>\<^verbatim>\<open>a.flatten()\<close>: the elements in row-major order, as a 1-D array.\<close>

definition flatten :: "'a ndarray \<Rightarrow> 'a list" where
  "flatten a = nd_data a"

text \<open>
  \<^verbatim>\<open>np.meshgrid(x, y)\<close> with the default \<^verbatim>\<open>indexing='xy'\<close>: both arguments are read as
  flat vectors of \<open>nx\<close> and \<open>ny\<close> elements, and both results have shape \<open>[ny, nx]\<close>; the
  first repeats \<open>x\<close> along every row, the second repeats \<open>y\<close> down every column.
\<close>

definition meshgrid :: "'a ndarray \<Rightarrow> 'a ndarray \<Rightarrow> 'a ndarray \<times> 'a ndarray" where
  "meshgrid x y =
     (let nx = length (nd_data x); ny = length (nd_data y)
      in (\<lparr>nd_shape = [ny, nx], nd_data = concat (replicate ny (nd_data x))\<rparr>,
          \<lparr>nd_shape = [ny, nx], nd_data = concat (map (replicate nx) (nd_data y))\<rparr>))"

text \<open>
  The indices \<^verbatim>\<open>[::step]\<close> selects on an axis of length \<open>n\<close>, for \<open>step \<noteq> 0\<close>: from the
  front \<open>0, step, 2 step, \<dots>\<close> when the step is positive, from the back
  \<open>n - 1, n - 1 - |step|, \<dots>\<close> when it is negative; \<open>\<lceil>n / |step|\<rceil>\<close> of them either way.
\<close>

definition slice_count :: "nat \<Rightarrow> int \<Rightarrow> nat" where
  "slice_count n step = (n + nat \<bar>step\<bar> - 1) div nat \<bar>step\<bar>"

definition slice_indices :: "nat \<Rightarrow> int \<Rightarrow> nat list" where
  "slice_indices n step =
     (if 0 < step then map (\<lambda>k. k * nat step) [0..<slice_count n step]
      else map (\<lambda>k. n - 1 - k * nat (- step)) [0..<slice_count n step])"

text \<open>The \<open>k\<close>-th run of \<open>p\<close> consecutive elements.\<close>

definition block :: "nat \<Rightarrow> nat \<Rightarrow> 'a list \<Rightarrow> 'a list" where
  "block p k xs = take p (drop (k * p) xs)"

text \<open>
  \<^verbatim>\<open>a[::step, ::step]\<close>: two slices need two axes (IndexError otherwise), a zero step is
  a ValueError; the first two axes are subsampled and the remaining ones kept whole.
\<close>

definition slice2 :: "int \<Rightarrow> 'a ndarray \<Rightarrow> error + 'a ndarray" where
  "slice2 step a =
     (case nd_shape a of
        d0 # d1 # rest \<Rightarrow>
          if step = 0 then Inl ValueError_slice_step_zero
          else Inr \<lparr>nd_shape = slice_count d0 step # slice_count d1 step # rest,
                    nd_data = concat (map (\<lambda>i. concat (map (\<lambda>j. block (prod_list rest) (i * d1 + j) (nd_data a))
                                                  (slice_indices d1 step)))
                                          (slice_indices d0 step))\<rparr>
      | _ \<Rightarrow> Inl IndexError_too_many_indices)"

text \<open>
  \<^verbatim>\<open>p & q\<close> on two 1-D boolean arrays: equal lengths combine pointwise, a length-one
  operand is broadcast against the other, anything else is a ValueError.
\<close>

definition broadcast_and :: "bool list \<Rightarrow> bool list \<Rightarrow> error + bool list" where
  "broadcast_and p q =
     (if length p = length q then Inr (mask_and p q)
      else if length p = 1 then Inr (map (\<lambda>b. hd p \<and> b) q)
      else if length q = 1 then Inr (map (\<lambda>b. b \<and> hd q) p)
      else Inl ValueError_broadcast)"

text \<open>\<^verbatim>\<open>xs[index]\<close> with a boolean index: its length must be that of \<open>xs\<close>.\<close>

definition boolean_index :: "bool list \<Rightarrow> 'a list \<Rightarrow> error + 'a list" where
  "boolean_index m xs =
     (if length m = length xs then Inr (compress m xs) else Inl IndexError_boolean_mismatch)"

subsection \<open>The records handed to \<^verbatim>\<open>magics.minput\<close>\<close>

text \<open>
  \<^verbatim>\<open>magics.minput(**kwargs)\<close> is the plotting library's constructor; it keeps the keyword
  arguments it is given. A result is modelled as the record of those arguments.
  A metadata dictionary is an association list in the order it was written;
  \<open>None\<close> in an optional field is Python's \<^verbatim>\<open>None\<close> (or, for \<open>input_type\<close>, a keyword
  that was not passed).
\<close>

type_synonym metadata = "(string \<times> string) list"

record minput_common =
  input_type :: "string option"
  input_metadata :: "metadata option"

record scalar_input = minput_common +
  input_field :: "f64 ndarray"
  input_latitudes_list :: "f64 ndarray"
  input_longitudes_list :: "f64 ndarray"

record vector_input = minput_common +
  input_x_component_values :: "f64 list"
  input_y_component_values :: "f64 list"
  input_latitude_values :: "f64 list"
  input_longitude_values :: "f64 list"

subsection \<open>Scalar grid adapter: \<^verbatim>\<open>minput_2d\<close>\<close>

definition minput_2d ::
  "f64 ndarray \<Rightarrow> f64 ndarray \<Rightarrow> f64 ndarray \<Rightarrow> metadata option \<Rightarrow> scalar_input" where
  "minput_2d data lon lat metadata =
     (let lat1 = squeeze (astype_float64 lat);
          lon1 = squeeze (astype_float64 lon);
          input_field_values = squeeze (astype_float64 data)
      in \<lparr>input_type = Some ''geographical'',
          input_metadata = metadata,
          input_field = input_field_values,
          input_latitudes_list = lat1,
          input_longitudes_list = lon1\<rparr>)"

subsection \<open>Vector grid adapter: \<^verbatim>\<open>minput_2d_vector\<close>\<close>

text \<open>
  \<open>skip\<close> is a Python int (default 1) and \<open>metadata\<close> is \<^verbatim>\<open>None\<close> (the default) or a
  dictionary. The result is an exception, \<^verbatim>\<open>None\<close>, or the record built by \<^verbatim>\<open>minput\<close>.
  The size test on the filtered u component comes before the coordinates are indexed,
  as in the source.
\<close>

definition minput_2d_vector ::
  "f64 ndarray \<Rightarrow> f64 ndarray \<Rightarrow> f64 ndarray \<Rightarrow> f64 ndarray \<Rightarrow> int \<Rightarrow> metadata option
     \<Rightarrow> error + vector_input option" where
  "minput_2d_vector udata vdata lon lat skip metadata =
     (let lat1 = squeeze (astype_float64 lat);
          lon1 = squeeze (astype_float64 lon);
          uwind_field = squeeze (astype_float64 udata);
          vwind_field = squeeze (astype_float64 vdata);
          (lon2, lat2) = meshgrid lon1 lat1
      in case slice2 skip uwind_field of Inl e \<Rightarrow> Inl e | Inr us \<Rightarrow>
         case slice2 skip vwind_field of Inl e \<Rightarrow> Inl e | Inr vs \<Rightarrow>
         case slice2 skip lat2 of Inl e \<Rightarrow> Inl e | Inr lats \<Rightarrow>
         case slice2 skip lon2 of Inl e \<Rightarrow> Inl e | Inr lons \<Rightarrow>
         case broadcast_and (map (\<lambda>x. \<not> isnan x) (flatten us)) (map (\<lambda>x. \<not> isnan x) (flatten vs)) of
           Inl e \<Rightarrow> Inl e | Inr index \<Rightarrow>
         case boolean_index index (flatten us) of Inl e \<Rightarrow> Inl e | Inr uwind \<Rightarrow>
         case boolean_index index (flatten vs) of Inl e \<Rightarrow> Inl e | Inr vwind \<Rightarrow>
         if length uwind = 0 then Inr None
         else
         case boolean_index index (flatten lats) of Inl e \<Rightarrow> Inl e | Inr lat3 \<Rightarrow>
         case boolean_index index (flatten lons) of Inl e \<Rightarrow> Inl e | Inr lon3 \<Rightarrow>
           Inr (Some \<lparr>input_type = Some ''geographical'',
                      input_metadata = Some (case metadata of
                                               None \<Rightarrow> [(''units'', ''m/s''), (''long_name'', ''wind field'')]
                                             | Some m \<Rightarrow> m),
                      input_x_component_values = uwind,
                      input_y_component_values = vwind,
                      input_latitude_values = lat3,
                      input_longitude_values = lon3\<rparr>))"

subsection \<open>Labelled datasets\<close>

text \<open>
  An xarray dataset: its dimensions with their sizes (what \<^verbatim>\<open>ds.dims\<close> iterates over, in
  order) and its variables by name, coordinates and data variables alike. A variable
  has its own dimension names, its values and its attributes.
\<close>

record data_array =
  da_dims :: "string list"
  da_values :: "f64 ndarray"
  da_attrs :: metadata

record dataset =
  ds_dims :: "(string \<times> nat) list"
  ds_vars :: "(string \<times> data_array) list"

text \<open>\<^verbatim>\<open>ds[name]\<close>: the variable of that name, KeyError when there is none.\<close>

definition getvar :: "dataset \<Rightarrow> string \<Rightarrow> error + data_array" where
  "getvar ds name = (case map_of (ds_vars ds) name of None \<Rightarrow> Inl (KeyError name) | Some v \<Rightarrow> Inr v)"

fun index_of :: "'a \<Rightarrow> 'a list \<Rightarrow> nat option" where
  "index_of x [] = None"
| "index_of x (y # ys) = (if x = y then Some 0 else map_option Suc (index_of x ys))"

text \<open>Position 0 along axis \<open>k\<close>; the axis disappears.\<close>

definition take_first :: "nat \<Rightarrow> 'a ndarray \<Rightarrow> 'a ndarray" where
  "take_first k a =
     (let sh = nd_shape a;
          inner = prod_list (drop (Suc k) sh);
          outer = prod_list (take k sh);
          n = sh ! k
      in \<lparr>nd_shape = take k sh @ drop (Suc k) sh,
          nd_data = concat (map (\<lambda>out. block inner (out * n) (nd_data a)) [0..<outer])\<rparr>)"

definition isel_first :: "string \<Rightarrow> data_array \<Rightarrow> data_array" where
  "isel_first dname v =
     (case index_of dname (da_dims v) of
        None \<Rightarrow> v
      | Some k \<Rightarrow> v\<lparr>da_dims := take k (da_dims v) @ drop (Suc k) (da_dims v),
                     da_values := take_first k (da_values v)\<rparr>)"

text \<open>
  The two statements \<^verbatim>\<open>d = ds[dim].values[0]\<close> and \<^verbatim>\<open>ds = ds.loc[{dim: d}]\<close>: the
  first coordinate label of the dimension is read (there must be one) and the dataset
  is restricted to it, which removes the dimension from every variable that has it.
  Labels along a dimension are taken to be distinct, so the first label selects
  position 0. A name that is not a dimension of the dataset is an exception (reported
  here as KeyError).
\<close>

definition sel_first :: "dataset \<Rightarrow> string \<Rightarrow> error + dataset" where
  "sel_first ds dname =
     (case map_of (ds_dims ds) dname of
        None \<Rightarrow> Inl (KeyError dname)
      | Some n \<Rightarrow>
          if n = 0 then Inl IndexError_out_of_range
          else Inr \<lparr>ds_dims = filter (\<lambda>(name, size). name \<noteq> dname) (ds_dims ds),
                    ds_vars = map (\<lambda>(name, v). (name, isel_first dname v)) (ds_vars ds)\<rparr>)"

subsection \<open>Labelled-dataset scalar adapter: \<^verbatim>\<open>minput_xarray\<close>\<close>

text \<open>The loop over \<^verbatim>\<open>data.dims\<close>; the names come from the dataset as it was passed in.\<close>

fun flatten_dims :: "string list \<Rightarrow> dataset \<Rightarrow> error + dataset" where
  "flatten_dims [] data = Inr data"
| "flatten_dims (dname # dims) data =
     (if dname = ''lon'' \<or> dname = ''lat'' then flatten_dims dims data
      else case sel_first data dname of Inl e \<Rightarrow> Inl e | Inr data' \<Rightarrow> flatten_dims dims data')"

definition minput_xarray :: "dataset \<Rightarrow> string \<Rightarrow> metadata option \<Rightarrow> error + scalar_input" where
  "minput_xarray data0 varname metadata =
     (case flatten_dims (map fst (ds_dims data0)) data0 of Inl e \<Rightarrow> Inl e | Inr data \<Rightarrow>
      case getvar data ''lat'' of Inl e \<Rightarrow> Inl e | Inr latv \<Rightarrow>
      case getvar data ''lon'' of Inl e \<Rightarrow> Inl e | Inr lonv \<Rightarrow>
      case getvar data varname of Inl e \<Rightarrow> Inl e | Inr var \<Rightarrow>
        (let lat = astype_float64 (da_values latv);
             lon = astype_float64 (da_values lonv);
             input_field_values = squeeze (astype_float64 (da_values var))
         in Inr \<lparr>input_type = None,
                 input_metadata = (case metadata of None \<Rightarrow> Some (da_attrs var) | Some m \<Rightarrow> Some m),
                 input_field = input_field_values,
                 input_latitudes_list = lat,
                 input_longitudes_list = lon\<rparr>))"

subsection \<open>Labelled-dataset vector adapter: \<^verbatim>\<open>minput_xarray_vector\<close>\<close>

text \<open>
  The loop runs over the dimensions of \<^verbatim>\<open>uwind\<close> and collapses each one in \<^verbatim>\<open>uwind\<close>,
  then in \<^verbatim>\<open>vwind\<close>.
\<close>

fun flatten_dims_uv :: "string list \<Rightarrow> dataset \<Rightarrow> dataset \<Rightarrow> error + dataset \<times> dataset" where
  "flatten_dims_uv [] uwind vwind = Inr (uwind, vwind)"
| "flatten_dims_uv (dname # dims) uwind vwind =
     (if dname = ''lon'' \<or> dname = ''lat'' then flatten_dims_uv dims uwind vwind
      else case sel_first uwind dname of Inl e \<Rightarrow> Inl e | Inr uwind' \<Rightarrow>
           case sel_first vwind dname of Inl e \<Rightarrow> Inl e | Inr vwind' \<Rightarrow>
             flatten_dims_uv dims uwind' vwind')"

text \<open>
  An argument with a default in the signature is either left out by the caller or
  given. Only \<open>metadata\<close> is modelled so; \<open>u_varname\<close>, \<open>v_varname\<close> and \<open>skip\<close> are passed
  explicitly (their defaults are \<^verbatim>\<open>'data'\<close>, \<^verbatim>\<open>'data'\<close> and 1).
\<close>

datatype 'a arg = Omitted | Given 'a

text \<open>
  The variables are looked up under the string literals \<^verbatim>\<open>'u_varname'\<close> and
  \<^verbatim>\<open>'v_varname'\<close> (lines 188 and 189 of the source); the parameters of those names are
  not read. No NaN filtering takes place, and the function never returns \<^verbatim>\<open>None\<close>.
\<close>

definition minput_xarray_vector ::
  "dataset \<Rightarrow> dataset \<Rightarrow> string \<Rightarrow> string \<Rightarrow> int \<Rightarrow> metadata option arg \<Rightarrow> error + vector_input" where
  "minput_xarray_vector uwind0 vwind0 u_varname v_varname skip metadata =
     (case flatten_dims_uv (map fst (ds_dims uwind0)) uwind0 vwind0 of Inl e \<Rightarrow> Inl e | Inr (uwind, vwind) \<Rightarrow>
      case getvar uwind ''lat'' of Inl e \<Rightarrow> Inl e | Inr latv \<Rightarrow>
      case getvar uwind ''lon'' of Inl e \<Rightarrow> Inl e | Inr lonv \<Rightarrow>
      case getvar uwind ''u_varname'' of Inl e \<Rightarrow> Inl e | Inr uvar \<Rightarrow>
      case getvar vwind ''v_varname'' of Inl e \<Rightarrow> Inl e | Inr vvar \<Rightarrow>
        (let lat = astype_float64 (da_values latv);
             lon = astype_float64 (da_values lonv);
             uwind_field = squeeze (astype_float64 (da_values uvar));
             vwind_field = squeeze (astype_float64 (da_values vvar));
             (lon2, lat2) = meshgrid lon lat
         in case slice2 skip uwind_field of Inl e \<Rightarrow> Inl e | Inr us \<Rightarrow>
            case slice2 skip vwind_field of Inl e \<Rightarrow> Inl e | Inr vs \<Rightarrow>
            case slice2 skip lat2 of Inl e \<Rightarrow> Inl e | Inr lats \<Rightarrow>
            case slice2 skip lon2 of Inl e \<Rightarrow> Inl e | Inr lons \<Rightarrow>
              Inr \<lparr>input_type = Some ''geographical'',
                   input_metadata = (case metadata of
                                       Omitted \<Rightarrow> Some [(''units'', ''m/s''), (''long_name'', ''Wind field'')]
                                     | Given m \<Rightarrow> m),
                   input_x_component_values = flatten us,
                   input_y_component_values = flatten vs,
                   input_latitude_values = flatten lats,
                   input_longitude_values = flatten lons\<rparr>))"

subsection \<open>Grid positions\<close>

text \<open>
  Vocabulary for the properties of the vector adapter. The positions \<open>(i, j)\<close> that
  \<^verbatim>\<open>[::skip, ::skip]\<close> keeps of a grid of \<open>nlat\<close> rows and \<open>nlon\<close> columns, in row-major
  order; the element of a grid at a position; the documented shape of an argument
  (\<^verbatim>\<open>[nlat, nlon]\<close> once degenerate axes are squeezed away); and the positions at which
  neither component is NaN.
\<close>

definition grid_points :: "nat \<Rightarrow> nat \<Rightarrow> int \<Rightarrow> (nat \<times> nat) list" where
  "grid_points nlat nlon skip =
     concat (map (\<lambda>i. map (\<lambda>j. (i, j)) (slice_indices nlon skip)) (slice_indices nlat skip))"

definition grid_value :: "'a ndarray \<Rightarrow> nat \<Rightarrow> nat \<times> nat \<Rightarrow> 'a" where
  "grid_value a nlon p = nd_data a ! (fst p * nlon + snd p)"

definition is_grid :: "nat \<Rightarrow> nat \<Rightarrow> 'a ndarray \<Rightarrow> bool" where
  "is_grid nlat nlon a = (nd_valid a \<and> nd_shape (squeeze a) = [nlat, nlon])"

definition point_ok :: "f64 ndarray \<Rightarrow> f64 ndarray \<Rightarrow> nat \<Rightarrow> nat \<times> nat \<Rightarrow> bool" where
  "point_ok u v nlon p = (\<not> isnan (grid_value u nlon p) \<and> \<not> isnan (grid_value v nlon p))"

definition surviving_points ::
  "f64 ndarray \<Rightarrow> f64 ndarray \<Rightarrow> nat \<Rightarrow> nat \<Rightarrow> int \<Rightarrow> (nat \<times> nat) list" where
  "surviving_points u v nlat nlon skip = filter (point_ok u v nlon) (grid_points nlat nlon skip)"

subsection \<open>The strided components\<close>

text \<open>
  Vocabulary for the properties that hold of every input. \<open>strided skip a\<close> is the
  source expression \<^verbatim>\<open>np.squeeze(a.astype(np.float64))[::skip, ::skip].flatten()\<close>, the
  way \<open>minput_2d_vector\<close> computes the u and the v list before it filters them; a pair
  of a u and a v value survives the filter when neither is NaN.
\<close>

definition strided :: "int \<Rightarrow> f64 ndarray \<Rightarrow> error + f64 list" where
  "strided skip a =
     (case slice2 skip (squeeze (astype_float64 a)) of Inl e \<Rightarrow> Inl e | Inr s \<Rightarrow> Inr (flatten s))"

definition survives :: "f64 \<times> f64 \<Rightarrow> bool" where
  "survives p = (\<not> isnan (fst p) \<and> \<not> isnan (snd p))"

subsection \<open>Example inputs\<close>

text \<open>
  Small grids on which the adapters are evaluated below: a 2 by 2 wind field with an
  infinite and two NaN entries, a 2 by 2 field of NaN only, one of infinities only, a
  3 by 3 field, and the coordinate vectors that go with them.
\<close>

definition example_u :: "f64 ndarray" where
  "example_u = \<lparr>nd_shape = [2, 2], nd_data = [PInf, Fin 1, NaN, Fin 2]\<rparr>"

definition example_v :: "f64 ndarray" where
  "example_v = \<lparr>nd_shape = [2, 2], nd_data = [Fin 3, NaN, Fin 4, Fin 5]\<rparr>"

definition example_lon :: "f64 ndarray" where
  "example_lon = \<lparr>nd_shape = [2], nd_data = [Fin 100, Fin 101]\<rparr>"

definition example_lat :: "f64 ndarray" where
  "example_lat = \<lparr>nd_shape = [2], nd_data = [Fin 30, Fin 31]\<rparr>"

definition example_nan_grid :: "f64 ndarray" where
  "example_nan_grid = \<lparr>nd_shape = [2, 2], nd_data = [NaN, NaN, NaN, NaN]\<rparr>"

definition example_grid3 :: "f64 ndarray" where
  "example_grid3 = \<lparr>nd_shape = [3, 3],
      nd_data = [Fin 1, Fin 2, Fin 3, Fin 4, Fin 5, Fin 6, Fin 7, Fin 8, Fin 9]\<rparr>"

definition example_axis3 :: "f64 ndarray" where
  "example_axis3 = \<lparr>nd_shape = [3], nd_data = [Fin 10, Fin 20, Fin 30]\<rparr>"

definition example_inf_grid :: "f64 ndarray" where
  "example_inf_grid = \<lparr>nd_shape = [2, 2], nd_data = [PInf, PInf, NInf, PInf]\<rparr>"

text \<open>
  A dataset as the retrieval service returns it: dimensions time, lat and lon, their
  coordinates, and one data variable named \<^verbatim>\<open>data\<close>. The second dataset differs only in
  the names of its data variables, which are literally \<^verbatim>\<open>u_varname\<close> and \<^verbatim>\<open>v_varname\<close>.
\<close>

definition example_coords :: "(string \<times> data_array) list" where
  "example_coords =
     [(''time'', \<lparr>da_dims = [''time''], da_values = \<lparr>nd_shape = [2], nd_data = [Fin 0, Fin 6]\<rparr>, da_attrs = []\<rparr>),
      (''lat'', \<lparr>da_dims = [''lat''], da_values = \<lparr>nd_shape = [2], nd_data = [Fin 30, Fin 31]\<rparr>, da_attrs = []\<rparr>),
      (''lon'', \<lparr>da_dims = [''lon''], da_values = \<lparr>nd_shape = [2], nd_data = [Fin 100, Fin 101]\<rparr>, da_attrs = []\<rparr>)]"

definition example_wind :: data_array where
  "example_wind =
     \<lparr>da_dims = [''time'', ''lat'', ''lon''],
      da_values = \<lparr>nd_shape = [2, 2, 2],
                   nd_data = [Fin 1, Fin 2, Fin 3, Fin 4, Fin 5, Fin 6, Fin 7, Fin 8]\<rparr>,
      da_attrs = [(''units'', ''knots'')]\<rparr>"

definition example_dataset :: dataset where
  "example_dataset =
     \<lparr>ds_dims = [(''time'', 2), (''lat'', 2), (''lon'', 2)],
      ds_vars = example_coords @ [(''data'', example_wind)]\<rparr>"

definition example_literal_dataset :: dataset where
  "example_literal_dataset =
     \<lparr>ds_dims = [(''time'', 2), (''lat'', 2), (''lon'', 2)],
      ds_vars = example_coords @ [(''u_varname'', example_wind), (''v_varname'', example_wind)]\<rparr>"

text \<open>
  A grid of one row (shape \<^verbatim>\<open>[1, 3]\<close>) with its latitude vector of one entry; and a
  2 by 2 wind field of distinct values, with a pair of coordinate vectors whose lengths
  are those of a 4 by 1 grid instead.
\<close>

definition example_row :: "f64 ndarray" where
  "example_row = \<lparr>nd_shape = [1, 3], nd_data = [NaN, NaN, NaN]\<rparr>"

definition example_lat1 :: "f64 ndarray" where
  "example_lat1 = \<lparr>nd_shape = [1], nd_data = [Fin 30]\<rparr>"





section \<open>Properties\<close>

subsection \<open>Masks and ceilings\<close>

lemma compress_mask_map: "compress (map P xs) xs = filter P xs"
  by (induction xs) (simp_all add: compress_def)

lemma mask_and_map: "mask_and (map P xs) (map Q xs) = map (\<lambda>x. P x \<and> Q x) xs"
  by (induction xs) (simp_all add: mask_and_def)

lemma region_select:
  "compress (mask_and (map (\<lambda>x. f64_ge x lo) xs) (map (\<lambda>x. f64_le x hi) xs)) xs
     = filter (in_bounds lo hi) xs"
proof -
  have "(\<lambda>x. f64_ge x lo \<and> f64_le x hi) = in_bounds lo hi"
    by (rule ext) (simp add: in_bounds_def f64_ge_def)
  then show ?thesis
    by (simp add: mask_and_map compress_mask_map)
qed

lemma ceil_div_as_div: "0 < c \<Longrightarrow> ceil_div n c = int ((n + c - 1) div c)"
proof -
  assume c: "0 < c"
  define k where "k = (n + c - 1) div c"
  have "n + c - 1 < c * k + c"
    unfolding k_def using c dividend_less_times_div[of c "n + c - 1"] by simp
  then have a: "n \<le> k * c" using c by (simp add: algebra_simps)
  have "k * c \<le> n + c - 1"
    unfolding k_def by simp
  then have "k * c < n + c" using c by linarith
  then have "real k * real c < real n + real c"
    by (simp flip: of_nat_mult of_nat_add)
  then have "(real k - 1) * real c < real n"
    by (simp add: algebra_simps)
  then have "real_of_int (int k) - 1 < real n / real c"
    using c by (simp add: pos_less_divide_eq)
  moreover have "real n / real c \<le> real_of_int (int k)"
    using a c by (simp add: divide_le_eq flip: of_nat_mult)
  ultimately show ?thesis
    unfolding ceil_div_def k_def[symmetric] by (simp add: ceiling_eq_iff)
qed

subsection \<open>Joint filtering\<close>

lemma compress_zip_filter:
  "length m = length xs \<Longrightarrow> compress m xs = map fst (filter snd (zip xs m))"
  by (simp add: compress_def)

lemma compress_map2:
  "length xs = length ys \<Longrightarrow>
   compress (map (\<lambda>(x, y). R x y) (zip xs ys)) xs = map fst (filter (\<lambda>(x, y). R x y) (zip xs ys))"
proof (induction xs ys rule: list_induct2)
  case Nil
  then show ?case by (simp add: compress_def)
next
  case (Cons x xs y ys)
  then show ?case by (simp add: compress_def)
qed

lemma compress_map2_snd:
  "length xs = length ys \<Longrightarrow>
   compress (map (\<lambda>(x, y). R x y) (zip xs ys)) ys = map snd (filter (\<lambda>(x, y). R x y) (zip xs ys))"
proof (induction xs ys rule: list_induct2)
  case Nil
  then show ?case by (simp add: compress_def)
next
  case (Cons x xs y ys)
  then show ?case by (simp add: compress_def)
qed

lemma mask_and_zip:
  "length xs = length ys \<Longrightarrow>
   mask_and (map P xs) (map Q ys) = map (\<lambda>(x, y). P x \<and> Q y) (zip xs ys)"
  by (induction xs ys rule: list_induct2) (simp_all add: mask_and_def)

lemma broadcast_and_length:
  "broadcast_and p q = Inr index \<Longrightarrow> length index = length p \<Longrightarrow> length index = length q
     \<Longrightarrow> index = mask_and p q"
  by (auto simp: broadcast_and_def split: if_splits)

lemma joint_filter:
  assumes "broadcast_and (map P us) (map Q vs) = Inr index"
    and "boolean_index index us = Inr uo"
    and "boolean_index index vs = Inr vo"
  shows "length us = length vs"
    and "index = map (\<lambda>(x, y). P x \<and> Q y) (zip us vs)"
    and "uo = map fst (filter (\<lambda>(x, y). P x \<and> Q y) (zip us vs))"
    and "vo = map snd (filter (\<lambda>(x, y). P x \<and> Q y) (zip us vs))"
proof -
  from assms(2) have lu: "length index = length us" and uo: "uo = compress index us"
    by (auto simp: boolean_index_def split: if_splits)
  from assms(3) have lv: "length index = length vs" and vo: "vo = compress index vs"
    by (auto simp: boolean_index_def split: if_splits)
  show len: "length us = length vs" using lu lv by simp
  have "index = mask_and (map P us) (map Q vs)"
    using broadcast_and_length [OF assms(1)] lu lv by simp
  then show idx: "index = map (\<lambda>(x, y). P x \<and> Q y) (zip us vs)"
    using len by (simp add: mask_and_zip)
  show "uo = map fst (filter (\<lambda>(x, y). P x \<and> Q y) (zip us vs))"
    unfolding uo idx using len by (rule compress_map2)
  show "vo = map snd (filter (\<lambda>(x, y). P x \<and> Q y) (zip us vs))"
    unfolding vo idx using len by (rule compress_map2_snd)
qed

subsection \<open>Strided slices of a grid\<close>

lemma prod_list_squeeze: "prod_list (filter (\<lambda>d. d \<noteq> 1) sh) = prod_list (sh :: nat list)"
  by (induction sh) simp_all

lemma is_grid_size: "is_grid nlat nlon a \<Longrightarrow> length (nd_data a) = nlat * nlon"
  using prod_list_squeeze [of "nd_shape a"]
  by (simp add: is_grid_def nd_valid_def squeeze_def)

lemma slice_count_pos: "k < slice_count n step \<Longrightarrow> 0 < n"
proof (rule ccontr)
  assume k: "k < slice_count n step" and "\<not> 0 < n"
  then have "n = 0" by simp
  have "(nat \<bar>step\<bar> - 1) div nat \<bar>step\<bar> = 0"
    by (cases "nat \<bar>step\<bar> = 0") simp_all
  with k \<open>n = 0\<close> show False by (simp add: slice_count_def)
qed

lemma slice_count_mult: "step \<noteq> 0 \<Longrightarrow> k < slice_count n step \<Longrightarrow> k * nat \<bar>step\<bar> < n"
proof -
  assume s: "step \<noteq> 0" and k: "k < slice_count n step"
  define c where "c = nat \<bar>step\<bar>"
  have c: "0 < c" using s by (simp add: c_def)
  have n: "0 < n" using k by (rule slice_count_pos)
  from k have "Suc k \<le> (n + c - 1) div c" by (simp add: slice_count_def c_def)
  then have "Suc k * c \<le> ((n + c - 1) div c) * c" by (rule mult_le_mono1)
  also have "\<dots> \<le> n + c - 1" by simp
  finally have "k * c + c \<le> n + c - 1" by simp
  then show "k * nat \<bar>step\<bar> < n" using n c unfolding c_def by linarith
qed

lemma slice_indices_bound:
  assumes "step \<noteq> 0" and "i \<in> set (slice_indices n step)"
  shows "i < n"
proof (cases "0 < step")
  case True
  with assms obtain k where "k < slice_count n step" "i = k * nat step"
    by (auto simp: slice_indices_def)
  with slice_count_mult [OF assms(1), of k n] True show ?thesis by simp
next
  case False
  with assms obtain k where "k < slice_count n step" "i = n - 1 - k * nat (- step)"
    by (auto simp: slice_indices_def)
  with slice_count_pos [of k n step] show ?thesis by simp
qed

lemma length_slice_indices: "length (slice_indices n step) = slice_count n step"
  by (simp add: slice_indices_def)

lemma grid_points_bound:
  assumes "step \<noteq> 0" and "p \<in> set (grid_points nlat nlon step)"
  shows "fst p < nlat \<and> snd p < nlon"
  using assms by (auto simp: grid_points_def dest: slice_indices_bound)

lemma length_grid_points:
  "length (grid_points nlat nlon step) = slice_count nlat step * slice_count nlon step"
  by (simp add: grid_points_def length_concat comp_def length_slice_indices sum_list_triv)

lemma grid_index_bound: "i < nlat \<Longrightarrow> j < nlon \<Longrightarrow> i * nlon + j < nlat * (nlon::nat)"
proof -
  assume i: "i < nlat" and j: "j < nlon"
  have "i * nlon + j < i * nlon + nlon" using j by simp
  also have "\<dots> = Suc i * nlon" by simp
  also have "\<dots> \<le> nlat * nlon" using i by (intro mult_le_mono1) simp
  finally show ?thesis .
qed

lemma block_one: "k < length xs \<Longrightarrow> block 1 k xs = [xs ! k]"
  by (simp add: block_def take_Suc_conv_app_nth hd_drop_conv_nth take_Suc)

lemma concat_singletons:
  "concat (map (\<lambda>i. concat (map (\<lambda>j. [f (i, j)]) js)) is)
     = map f (concat (map (\<lambda>i. map (\<lambda>j. (i, j)) js) is))"
  by (induction "is") (simp_all add: map_concat comp_def)

lemma slice2_grid:
  assumes sh: "nd_shape a = [d0, d1]" and len: "length (nd_data a) = d0 * d1" and s: "step \<noteq> 0"
  shows "slice2 step a = Inr \<lparr>nd_shape = [slice_count d0 step, slice_count d1 step],
                              nd_data = map (grid_value a d1) (grid_points d0 d1 step)\<rparr>"
proof -
  have "concat (map (\<lambda>i. concat (map (\<lambda>j. block 1 (i * d1 + j) (nd_data a)) (slice_indices d1 step)))
                  (slice_indices d0 step))
      = concat (map (\<lambda>i. concat (map (\<lambda>j. [grid_value a d1 (i, j)]) (slice_indices d1 step)))
                  (slice_indices d0 step))"
  proof (intro arg_cong [where f = concat] map_cong refl)
    fix i j assume "i \<in> set (slice_indices d0 step)" "j \<in> set (slice_indices d1 step)"
    then have "i < d0" "j < d1" using s by (auto dest: slice_indices_bound)
    then have "i * d1 + j < length (nd_data a)" unfolding len by (rule grid_index_bound)
    then show "block 1 (i * d1 + j) (nd_data a) = [grid_value a d1 (i, j)]"
      by (simp only: block_one grid_value_def fst_conv snd_conv)
  qed
  also have "\<dots> = map (grid_value a d1) (grid_points d0 d1 step)"
    unfolding grid_points_def by (rule concat_singletons)
  finally show ?thesis using sh s by (simp add: slice2_def)
qed

subsection \<open>The vector adapter on a grid\<close>

lemma nth_concat_replicate:
  "j < length xs \<Longrightarrow> i < n \<Longrightarrow> concat (replicate n xs) ! (i * length xs + j) = xs ! j"
proof (induction n arbitrary: i)
  case 0
  then show ?case by simp
next
  case (Suc n)
  show ?case
  proof (cases i)
    case 0
    with Suc.prems show ?thesis by (simp add: nth_append)
  next
    case (Suc i')
    with Suc.prems Suc.IH [of i'] show ?thesis by (simp add: nth_append)
  qed
qed

lemma nth_concat_map_replicate:
  "i < length ys \<Longrightarrow> j < nx \<Longrightarrow> concat (map (replicate nx) ys) ! (i * nx + j) = ys ! i"
proof (induction ys arbitrary: i)
  case Nil
  then show ?case by simp
next
  case (Cons y ys)
  show ?case
  proof (cases i)
    case 0
    with Cons.prems show ?thesis by (simp add: nth_append)
  next
    case (Suc i')
    with Cons.prems Cons.IH [of i'] show ?thesis by (simp add: nth_append)
  qed
qed

lemma length_concat_replicate: "length (concat (replicate n xs)) = n * length xs"
  by (induction n) simp_all

lemma length_concat_map_replicate: "length (concat (map (replicate nx) ys)) = length ys * nx"
  by (induction ys) simp_all

lemma compress_map_map: "compress (map P ps) (map f ps) = map f (filter P ps)"
  by (induction ps) (simp_all add: compress_def)

lemma slice2_mesh:
  assumes s: "step \<noteq> 0" and m: "meshgrid x y = (X, Y)"
    and nx: "nx = length (nd_data x)" and ny: "ny = length (nd_data y)"
  shows "\<exists>sh. slice2 step X = Inr \<lparr>nd_shape = sh, nd_data = map (\<lambda>p. nd_data x ! snd p) (grid_points ny nx step)\<rparr>"
    and "\<exists>sh. slice2 step Y = Inr \<lparr>nd_shape = sh, nd_data = map (\<lambda>p. nd_data y ! fst p) (grid_points ny nx step)\<rparr>"
proof -
  from m have X: "nd_shape X = [ny, nx]" "nd_data X = concat (replicate ny (nd_data x))"
    and Y: "nd_shape Y = [ny, nx]" "nd_data Y = concat (map (replicate nx) (nd_data y))"
    by (auto simp: meshgrid_def Let_def nx ny)
  have lX: "length (nd_data X) = ny * nx" by (simp add: X length_concat_replicate nx)
  have lY: "length (nd_data Y) = ny * nx" by (simp add: Y length_concat_map_replicate ny)
  have "map (grid_value X nx) (grid_points ny nx step) = map (\<lambda>p. nd_data x ! snd p) (grid_points ny nx step)"
  proof (rule map_cong [OF refl])
    fix p assume "p \<in> set (grid_points ny nx step)"
    then have "fst p < ny" "snd p < nx" using grid_points_bound [OF s] by auto
    then show "grid_value X nx p = nd_data x ! snd p"
      using nth_concat_replicate [of "snd p" "nd_data x" "fst p" ny]
      by (simp add: grid_value_def X nx)
  qed
  with slice2_grid [OF X(1) lX s]
  show "\<exists>sh. slice2 step X = Inr \<lparr>nd_shape = sh, nd_data = map (\<lambda>p. nd_data x ! snd p) (grid_points ny nx step)\<rparr>"
    by simp
  have "map (grid_value Y nx) (grid_points ny nx step) = map (\<lambda>p. nd_data y ! fst p) (grid_points ny nx step)"
  proof (rule map_cong [OF refl])
    fix p assume "p \<in> set (grid_points ny nx step)"
    then have "fst p < ny" "snd p < nx" using grid_points_bound [OF s] by auto
    then show "grid_value Y nx p = nd_data y ! fst p"
      using nth_concat_map_replicate [of "fst p" "nd_data y" "snd p" nx]
      by (simp add: grid_value_def Y ny)
  qed
  with slice2_grid [OF Y(1) lY s]
  show "\<exists>sh. slice2 step Y = Inr \<lparr>nd_shape = sh, nd_data = map (\<lambda>p. nd_data y ! fst p) (grid_points ny nx step)\<rparr>"
    by simp
qed

lemma minput_2d_vector_grid:
  assumes u: "is_grid nlat nlon udata" and v: "is_grid nlat nlon vdata"
    and lat: "nd_size lat = nlat" and lon: "nd_size lon = nlon" and s: "skip \<noteq> 0"
  shows "minput_2d_vector udata vdata lon lat skip metadata =
     (let pts = surviving_points udata vdata nlat nlon skip
      in if pts = [] then Inr None
         else Inr (Some \<lparr>input_type = Some ''geographical'',
                 input_metadata = Some (case metadata of
                                          None \<Rightarrow> [(''units'', ''m/s''), (''long_name'', ''wind field'')]
                                        | Some m \<Rightarrow> m),
                 input_x_component_values = map (grid_value udata nlon) pts,
                 input_y_component_values = map (grid_value vdata nlon) pts,
                 input_latitude_values = map (\<lambda>p. nd_data lat ! fst p) pts,
                 input_longitude_values = map (\<lambda>p. nd_data lon ! snd p) pts\<rparr>))"
proof -
  define ps where "ps = grid_points nlat nlon skip"
  have su: "nd_shape (squeeze udata) = [nlat, nlon]" "length (nd_data (squeeze udata)) = nlat * nlon"
    using u is_grid_size [OF u] by (simp_all add: is_grid_def squeeze_def)
  have sv: "nd_shape (squeeze vdata) = [nlat, nlon]" "length (nd_data (squeeze vdata)) = nlat * nlon"
    using v is_grid_size [OF v] by (simp_all add: is_grid_def squeeze_def)
  have gu: "grid_value (squeeze udata) nlon = grid_value udata nlon"
    and gv: "grid_value (squeeze vdata) nlon = grid_value vdata nlon"
    by (rule ext, simp add: grid_value_def squeeze_def)+
  have U: "slice2 skip (squeeze udata) = Inr \<lparr>nd_shape = [slice_count nlat skip, slice_count nlon skip],
                              nd_data = map (grid_value udata nlon) ps\<rparr>"
    using slice2_grid [OF su s] by (simp add: gu ps_def)
  have V: "slice2 skip (squeeze vdata) = Inr \<lparr>nd_shape = [slice_count nlat skip, slice_count nlon skip],
                              nd_data = map (grid_value vdata nlon) ps\<rparr>"
    using slice2_grid [OF sv s] by (simp add: gv ps_def)
  obtain X Y where m: "meshgrid (squeeze lon) (squeeze lat) = (X, Y)"
    by (cases "meshgrid (squeeze lon) (squeeze lat)")
  have nx: "nlon = length (nd_data (squeeze lon))" and ny: "nlat = length (nd_data (squeeze lat))"
    using lat lon by (simp_all add: nd_size_def squeeze_def)
  from slice2_mesh [OF s m nx ny]
  obtain shx shy where
    LO: "slice2 skip X = Inr \<lparr>nd_shape = shx, nd_data = map (\<lambda>p. nd_data lon ! snd p) ps\<rparr>" and
    LA: "slice2 skip Y = Inr \<lparr>nd_shape = shy, nd_data = map (\<lambda>p. nd_data lat ! fst p) ps\<rparr>"
    by (auto simp: squeeze_def ps_def)
  have idx: "mask_and (map ((\<lambda>x. \<not> isnan x) \<circ> grid_value udata nlon) ps)
                      (map ((\<lambda>x. \<not> isnan x) \<circ> grid_value vdata nlon) ps)
             = map (point_ok udata vdata nlon) ps"
  proof -
    have "point_ok udata vdata nlon
            = (\<lambda>p. \<not> isnan (grid_value udata nlon p) \<and> \<not> isnan (grid_value vdata nlon p))"
      by (rule ext) (simp add: point_ok_def)
    then show ?thesis
      by (simp add: comp_def mask_and_map)
  qed
  have sp: "surviving_points udata vdata nlat nlon skip = filter (point_ok udata vdata nlon) ps"
    by (simp add: surviving_points_def ps_def)
  show ?thesis
    unfolding minput_2d_vector_def astype_float64_def Let_def m prod.case U V LA LO sum.case
      flatten_def ndarray.simps broadcast_and_def boolean_index_def
    by (simp add: idx compress_map_map sp)
qed

subsection \<open>The stride estimator\<close>

lemma get_skip_vector_region:
  assumes "4 \<le> length r"
  shows "get_skip_vector lon lat (Some r)
           = Inr (max (ceil_div (count_within (r ! 0) (r ! 1) lon) 60)
                      (ceil_div (count_within (r ! 2) (r ! 3) lat) 30))"
proof -
  from assms have "0 < length r" "1 < length r" "2 < length r" "3 < length r"
    by linarith+
  then show ?thesis
    by (simp add: get_skip_vector_def getitem_def region_select count_within_def)
qed

lemma spec_stride_as_div: "spec_stride a b = max (int ((a + 59) div 60)) (int ((b + 29) div 30))"
  using ceil_div_as_div [of 60 a] ceil_div_as_div [of 30 b]
  by (simp add: spec_stride_def ceil_div_def)

text \<open>
  Claim C1. For all coordinate vectors and every optional region, \<open>get_skip_vector\<close>
  returns the larger of \<open>\<lceil>count(lon in R) / 60\<rceil>\<close> and \<open>\<lceil>count(lat in R) / 30\<rceil>\<close>, where the
  counts are over the entries between the region's bounds; without a region the full
  lengths are counted; and when the region leaves both vectors empty the result is 0.
\<close>

theorem get_skip_vector_stride:
  "get_skip_vector lon lat None = Inr (spec_stride (length lon) (length lat)) \<and>
   (4 \<le> length r \<longrightarrow>
      get_skip_vector lon lat (Some r)
        = Inr (spec_stride (count_within (r ! 0) (r ! 1) lon) (count_within (r ! 2) (r ! 3) lat))) \<and>
   (4 \<le> length r \<and> count_within (r ! 0) (r ! 1) lon = 0 \<and> count_within (r ! 2) (r ! 3) lat = 0 \<longrightarrow>
      get_skip_vector lon lat (Some r) = Inr 0)"
proof (intro conjI impI)
  show "get_skip_vector lon lat None = Inr (spec_stride (length lon) (length lat))"
    by (simp add: get_skip_vector_def spec_stride_def ceil_div_def)
next
  assume "4 \<le> length r"
  then show "get_skip_vector lon lat (Some r)
        = Inr (spec_stride (count_within (r ! 0) (r ! 1) lon) (count_within (r ! 2) (r ! 3) lat))"
    by (simp add: get_skip_vector_region spec_stride_def ceil_div_def)
next
  assume "4 \<le> length r \<and> count_within (r ! 0) (r ! 1) lon = 0 \<and> count_within (r ! 2) (r ! 3) lat = 0"
  then show "get_skip_vector lon lat (Some r) = Inr 0"
    by (simp add: get_skip_vector_region ceil_div_def)
qed

theorem get_skip_vector_stride_witness:
  "get_skip_vector (replicate 120 (Fin 0)) (replicate 60 (Fin 0)) None = Inr 2 \<and>
   get_skip_vector [Fin 100, Fin 105, NaN, Fin 110, Fin 200] [Fin 20, Fin 30]
       (Some [Fin 100, Fin 110, Fin 0, Fin 25]) = Inr 1 \<and>
   get_skip_vector [Fin 100, Fin 105] [Fin 20, Fin 30] (Some [Fin 0, Fin 10, Fin 40, Fin 50]) = Inr 0"
proof (intro conjI)
  show "get_skip_vector (replicate 120 (Fin 0)) (replicate 60 (Fin 0)) None = Inr 2"
    using get_skip_vector_stride [of "replicate 120 (Fin 0)" "replicate 60 (Fin 0)" "[]"]
    by (simp add: spec_stride_as_div)
next
  show "get_skip_vector [Fin 100, Fin 105, NaN, Fin 110, Fin 200] [Fin 20, Fin 30]
       (Some [Fin 100, Fin 110, Fin 0, Fin 25]) = Inr 1"
    using get_skip_vector_stride [of "[Fin 100, Fin 105, NaN, Fin 110, Fin 200]" "[Fin 20, Fin 30]"
        "[Fin 100, Fin 110, Fin 0, Fin 25]"]
    by (simp add: spec_stride_as_div count_within_def in_bounds_def)
next
  show "get_skip_vector [Fin 100, Fin 105] [Fin 20, Fin 30] (Some [Fin 0, Fin 10, Fin 40, Fin 50]) = Inr 0"
    using get_skip_vector_stride [of "[Fin 100, Fin 105]" "[Fin 20, Fin 30]" "[Fin 0, Fin 10, Fin 40, Fin 50]"]
    by (simp add: spec_stride_as_div count_within_def in_bounds_def)
qed

subsection \<open>The vector adapter: stages and the zero step\<close>

lemma minput_2d_vector_stages:
  assumes "minput_2d_vector udata vdata lon lat skip metadata = Inr (Some r)"
  shows "\<exists>us vs index.
           slice2 skip (squeeze udata) = Inr us \<and> slice2 skip (squeeze vdata) = Inr vs \<and>
           broadcast_and (map (\<lambda>x. \<not> isnan x) (nd_data us)) (map (\<lambda>x. \<not> isnan x) (nd_data vs)) = Inr index \<and>
           boolean_index index (nd_data us) = Inr (input_x_component_values r) \<and>
           boolean_index index (nd_data vs) = Inr (input_y_component_values r)"
    and "input_metadata r = Some (case metadata of
                                    None \<Rightarrow> [(''units'', ''m/s''), (''long_name'', ''wind field'')]
                                  | Some m \<Rightarrow> m)"
  using assms
  by (auto simp: minput_2d_vector_def astype_float64_def flatten_def Let_def
           split: sum.splits if_splits prod.splits)

lemma minput_2d_vector_zero_step:
  "minput_2d_vector udata vdata lon lat 0 metadata = Inl ValueError_slice_step_zero
   \<or> minput_2d_vector udata vdata lon lat 0 metadata = Inl IndexError_too_many_indices"
  by (auto simp: minput_2d_vector_def Let_def slice2_def split: sum.splits prod.splits list.splits)


lemma slice_count_le: "slice_count n step \<le> n"
proof (cases "nat \<bar>step\<bar> = 0")
  case True
  then show ?thesis by (simp add: slice_count_def)
next
  case False
  define c where "c = nat \<bar>step\<bar>"
  have c: "0 < c" using False by (simp add: c_def)
  have "n + c - 1 < Suc n * c"
  proof -
    have "n + c - 1 < n + c" using c by simp
    also have "n + c \<le> n * c + c" using c by simp
    finally show ?thesis by simp
  qed
  then have "(n + c - 1) div c < Suc n"
    using c by (simp add: div_less_iff_less_mult)
  then show ?thesis by (simp add: slice_count_def c_def)
qed

lemma slice_count_ceil: "1 \<le> step \<Longrightarrow> int (slice_count n step) = ceil_div n (nat step)"
  by (simp add: slice_count_def ceil_div_as_div)

subsection \<open>The vector adapter on every input\<close>

lemma survives_case: "survives = (\<lambda>(x, y). \<not> isnan x \<and> \<not> isnan y)"
  by (rule ext) (simp add: survives_def split_beta)

lemma strided_nonzero: "strided skip a = Inr xs \<Longrightarrow> skip \<noteq> 0"
  by (auto simp: strided_def slice2_def split: sum.splits list.splits if_splits)

lemma strided_coordinates:
  assumes s: "skip \<noteq> 0" and m: "meshgrid (squeeze lon) (squeeze lat) = (X, Y)"
  shows "\<exists>sx sy. slice2 skip X = Inr sx \<and> slice2 skip Y = Inr sy \<and>
           nd_data sx = map (\<lambda>p. nd_data lon ! snd p) (grid_points (nd_size lat) (nd_size lon) skip) \<and>
           nd_data sy = map (\<lambda>p. nd_data lat ! fst p) (grid_points (nd_size lat) (nd_size lon) skip)"
proof -
  have nx: "nd_size lon = length (nd_data (squeeze lon))" and ny: "nd_size lat = length (nd_data (squeeze lat))"
    by (simp_all add: nd_size_def squeeze_def)
  from slice2_mesh [OF s m nx ny] show ?thesis
    by (auto simp: squeeze_def)
qed

lemma minput_2d_vector_slice_error:
  "strided skip udata = Inl e \<Longrightarrow> minput_2d_vector udata vdata lon lat skip metadata = Inl e"
  "strided skip udata = Inr us \<Longrightarrow> strided skip vdata = Inl e
     \<Longrightarrow> minput_2d_vector udata vdata lon lat skip metadata = Inl e"
  by (auto simp: minput_2d_vector_def strided_def Let_def split: sum.splits prod.splits)

lemma minput_2d_vector_unequal:
  assumes us: "strided skip udata = Inr us" and vs: "strided skip vdata = Inr vs"
    and len: "length us \<noteq> length vs"
  shows "\<exists>e. minput_2d_vector udata vdata lon lat skip metadata = Inl e"
proof -
  from us obtain su :: "f64 ndarray" where U: "slice2 skip (squeeze udata) = Inr su" and u: "nd_data su = us"
    by (auto simp: strided_def astype_float64_def flatten_def split: sum.splits)
  from vs obtain sv :: "f64 ndarray" where V: "slice2 skip (squeeze vdata) = Inr sv" and v: "nd_data sv = vs"
    by (auto simp: strided_def astype_float64_def flatten_def split: sum.splits)
  show ?thesis
    using len
    unfolding minput_2d_vector_def astype_float64_def Let_def U V sum.case flatten_def u v
      broadcast_and_def boolean_index_def
    by (auto split: sum.splits prod.splits)
qed

lemma minput_2d_vector_filtered:
  assumes us: "strided skip udata = Inr us" and vs: "strided skip vdata = Inr vs"
    and len: "length us = length vs"
  shows "minput_2d_vector udata vdata lon lat skip metadata =
     (if filter survives (zip us vs) = [] then Inr None
      else if length (grid_points (nd_size lat) (nd_size lon) skip) \<noteq> length us
        then Inl IndexError_boolean_mismatch
      else Inr (Some \<lparr>input_type = Some ''geographical'',
              input_metadata = Some (case metadata of
                                       None \<Rightarrow> [(''units'', ''m/s''), (''long_name'', ''wind field'')]
                                     | Some m \<Rightarrow> m),
              input_x_component_values = map fst (filter survives (zip us vs)),
              input_y_component_values = map snd (filter survives (zip us vs)),
              input_latitude_values =
                compress (map survives (zip us vs))
                  (map (\<lambda>p. nd_data lat ! fst p) (grid_points (nd_size lat) (nd_size lon) skip)),
              input_longitude_values =
                compress (map survives (zip us vs))
                  (map (\<lambda>p. nd_data lon ! snd p) (grid_points (nd_size lat) (nd_size lon) skip))\<rparr>))"
proof -
  from us obtain su :: "f64 ndarray" where U: "slice2 skip (squeeze udata) = Inr su" and u: "nd_data su = us"
    by (auto simp: strided_def astype_float64_def flatten_def split: sum.splits)
  from vs obtain sv :: "f64 ndarray" where V: "slice2 skip (squeeze vdata) = Inr sv" and v: "nd_data sv = vs"
    by (auto simp: strided_def astype_float64_def flatten_def split: sum.splits)
  have s: "skip \<noteq> 0" using us by (rule strided_nonzero)
  obtain X Y where m: "meshgrid (squeeze lon) (squeeze lat) = (X, Y)"
    by (cases "meshgrid (squeeze lon) (squeeze lat)")
  from strided_coordinates [OF s m] obtain sx sy :: "f64 ndarray" where
    LO: "slice2 skip X = Inr sx" and LA: "slice2 skip Y = Inr sy" and
    lo: "nd_data sx = map (\<lambda>p. nd_data lon ! snd p) (grid_points (nd_size lat) (nd_size lon) skip)" and
    la: "nd_data sy = map (\<lambda>p. nd_data lat ! fst p) (grid_points (nd_size lat) (nd_size lon) skip)"
    by auto
  have idx: "mask_and (map (\<lambda>x. \<not> isnan x) us) (map (\<lambda>x. \<not> isnan x) vs) = map survives (zip us vs)"
    using len by (simp add: mask_and_zip survives_case)
  have x: "compress (map survives (zip us vs)) us = map fst (filter survives (zip us vs))"
    using compress_map2 [OF len, of "\<lambda>x y. \<not> isnan x \<and> \<not> isnan y"] by (simp add: survives_case)
  have y: "compress (map survives (zip us vs)) vs = map snd (filter survives (zip us vs))"
    using compress_map2_snd [OF len, of "\<lambda>x y. \<not> isnan x \<and> \<not> isnan y"] by (simp add: survives_case)
  show ?thesis
    unfolding minput_2d_vector_def astype_float64_def Let_def m prod.case U V LA LO sum.case
      flatten_def u v lo la broadcast_and_def boolean_index_def
    using len by (simp add: idx x y)
qed



lemma minput_2d_vector_cases:
  obtains (raise) e where "minput_2d_vector udata vdata lon lat skip metadata = Inl e"
      "strided skip udata = Inl e \<or> (\<exists>us. strided skip udata = Inr us \<and> strided skip vdata = Inl e)
        \<or> (\<exists>us vs. strided skip udata = Inr us \<and> strided skip vdata = Inr vs \<and> length us \<noteq> length vs)"
  | (filtered) us vs where "strided skip udata = Inr us" "strided skip vdata = Inr vs" "length us = length vs"
proof (cases "strided skip udata")
  case (Inl e)
  with minput_2d_vector_slice_error(1) [OF Inl] raise show ?thesis by blast
next
  case u: (Inr us)
  show ?thesis
  proof (cases "strided skip vdata")
    case (Inl e)
    with minput_2d_vector_slice_error(2) [OF u Inl] u raise show ?thesis by blast
  next
    case v: (Inr vs)
    show ?thesis
    proof (cases "length us = length vs")
      case True
      with u v filtered show ?thesis by blast
    next
      case False
      with minput_2d_vector_unequal [OF u v False] u v raise show ?thesis by blast
    qed
  qed
qed

subsection \<open>The null result\<close>

text \<open>
  Claim C2, as amended. For every input, \<open>minput_2d_vector\<close> returns \<^verbatim>\<open>None\<close> exactly when
  the strided u and v lists exist, have the same size, and no position survives the
  joint NaN filter; in particular it returns \<^verbatim>\<open>None\<close> when every strided u value or every
  strided v value is NaN. It returns a constructed record exactly when some position
  survives and the strided coordinate meshes have the size of the strided components.
  In every other case it raises. Infinite values survive the filter. The null result
  is a normal return (\<open>Inr\<close>), not an exception.
\<close>

theorem minput_2d_vector_null_result:
  "(minput_2d_vector udata vdata lon lat skip metadata = Inr None \<longleftrightarrow>
      (\<exists>us vs. strided skip udata = Inr us \<and> strided skip vdata = Inr vs \<and>
               length us = length vs \<and> filter survives (zip us vs) = [])) \<and>
   ((\<exists>r. minput_2d_vector udata vdata lon lat skip metadata = Inr (Some r)) \<longleftrightarrow>
      (\<exists>us vs. strided skip udata = Inr us \<and> strided skip vdata = Inr vs \<and>
               length us = length vs \<and> filter survives (zip us vs) \<noteq> [] \<and>
               length us = slice_count (nd_size lat) skip * slice_count (nd_size lon) skip)) \<and>
   (strided skip udata = Inr us' \<and> strided skip vdata = Inr vs' \<and> length us' = length vs' \<and>
    (list_all isnan us' \<or> list_all isnan vs') \<longrightarrow>
      minput_2d_vector udata vdata lon lat skip metadata = Inr None)"
proof (intro conjI impI)
  show "minput_2d_vector udata vdata lon lat skip metadata = Inr None \<longleftrightarrow>
      (\<exists>us vs. strided skip udata = Inr us \<and> strided skip vdata = Inr vs \<and>
               length us = length vs \<and> filter survives (zip us vs) = [])"
  proof (cases rule: minput_2d_vector_cases [of udata vdata lon lat skip metadata])
    case (raise e)
    then show ?thesis by auto
  next
    case (filtered us vs)
    show ?thesis
      unfolding minput_2d_vector_filtered [OF filtered] using filtered by auto
  qed
next
  show "(\<exists>r. minput_2d_vector udata vdata lon lat skip metadata = Inr (Some r)) \<longleftrightarrow>
      (\<exists>us vs. strided skip udata = Inr us \<and> strided skip vdata = Inr vs \<and>
               length us = length vs \<and> filter survives (zip us vs) \<noteq> [] \<and>
               length us = slice_count (nd_size lat) skip * slice_count (nd_size lon) skip)"
  proof (cases rule: minput_2d_vector_cases [of udata vdata lon lat skip metadata])
    case (raise e)
    then show ?thesis by auto
  next
    case (filtered us vs)
    show ?thesis
      unfolding minput_2d_vector_filtered [OF filtered] length_grid_points using filtered by auto
  qed
next
  assume a: "strided skip udata = Inr us' \<and> strided skip vdata = Inr vs' \<and> length us' = length vs' \<and>
    (list_all isnan us' \<or> list_all isnan vs')"
  then have f: "strided skip udata = Inr us'" "strided skip vdata = Inr vs'" "length us' = length vs'"
    by simp_all
  have "\<not> survives p" if "p \<in> set (zip us' vs')" for p
  proof -
    obtain x y where p: "p = (x, y)" by (cases p)
    from that have "x \<in> set us'" "y \<in> set vs'"
      unfolding p by (rule set_zip_leftD, rule set_zip_rightD)
    with a show ?thesis by (auto simp: survives_def list_all_iff p)
  qed
  then have "filter survives (zip us' vs') = []"
    by (simp add: filter_empty_conv)
  then show "minput_2d_vector udata vdata lon lat skip metadata = Inr None"
    unfolding minput_2d_vector_filtered [OF f] by simp
qed

theorem minput_2d_vector_null_result_witness:
  "minput_2d_vector example_nan_grid example_v example_lon example_lat 1 None = Inr None \<and>
   minput_2d_vector example_u example_nan_grid example_lon example_lat 1 None = Inr None \<and>
   (\<exists>r. minput_2d_vector example_u example_v example_lon example_lat 1 None = Inr (Some r))"
proof -
  have n: "strided 1 example_nan_grid = Inr [NaN, NaN, NaN, NaN]"
    and u: "strided 1 example_u = Inr [PInf, Fin 1, NaN, Fin 2]"
    and v: "strided 1 example_v = Inr [Fin 3, NaN, Fin 4, Fin 5]"
    by code_simp+
  have l: "length [NaN, NaN, NaN, NaN] = length [Fin 3, NaN, Fin 4, Fin 5]"
    "length [PInf, Fin 1, NaN, Fin 2] = length [NaN, NaN, NaN, NaN]"
    "length [PInf, Fin 1, NaN, Fin 2] = length [Fin 3, NaN, Fin 4, Fin 5]"
    by simp_all
  have a: "list_all isnan [NaN, NaN, NaN, NaN]"
    by simp
  have s: "filter survives (zip [PInf, Fin 1, NaN, Fin 2] [Fin 3, NaN, Fin 4, Fin 5]) \<noteq> []"
    by code_simp
  have c: "length [PInf, Fin 1, NaN, Fin 2]
             = slice_count (nd_size example_lat) 1 * slice_count (nd_size example_lon) 1"
    by code_simp
  note t1 = minput_2d_vector_null_result [of example_nan_grid example_v example_lon example_lat 1 None
      "[NaN, NaN, NaN, NaN]" "[Fin 3, NaN, Fin 4, Fin 5]"]
  note t2 = minput_2d_vector_null_result [of example_u example_nan_grid example_lon example_lat 1 None
      "[PInf, Fin 1, NaN, Fin 2]" "[NaN, NaN, NaN, NaN]"]
  note t3 = minput_2d_vector_null_result [of example_u example_v example_lon example_lat 1 None]
  from t1 n v l(1) a
  have 1: "minput_2d_vector example_nan_grid example_v example_lon example_lat 1 None = Inr None"
    by blast
  from t2 u n l(2) a
  have 2: "minput_2d_vector example_u example_nan_grid example_lon example_lat 1 None = Inr None"
    by blast
  from t3 u v l(3) s c
  have 3: "\<exists>r. minput_2d_vector example_u example_v example_lon example_lat 1 None = Inr (Some r)"
    by blast
  from 1 2 3 show ?thesis by blast
qed

text \<open>
  Claim C2 as stated fails twice. Every u value of the first field is infinite, so all
  of them are non-finite, and the adapter returns a record of three points. Every
  value of the one-row field is NaN, and the adapter returns neither \<^verbatim>\<open>None\<close> nor a
  record: squeezing leaves one axis and the two slices raise IndexError.
\<close>

theorem minput_2d_vector_null_result_counterexample:
  "list_all (\<lambda>x. \<not> isfinite x) (nd_data example_inf_grid) \<and>
   minput_2d_vector example_inf_grid example_v example_lon example_lat 1 None =
     Inr (Some \<lparr>input_type = Some ''geographical'',
          input_metadata = Some [(''units'', ''m/s''), (''long_name'', ''wind field'')],
          input_x_component_values = [PInf, NInf, PInf],
          input_y_component_values = [Fin 3, Fin 4, Fin 5],
          input_latitude_values = [Fin 30, Fin 31, Fin 31],
          input_longitude_values = [Fin 100, Fin 100, Fin 101]\<rparr>) \<and>
   list_all isnan (nd_data example_row) \<and>
   minput_2d_vector example_row example_row example_axis3 example_lat1 1 None
     = Inl IndexError_too_many_indices"
  by code_simp

subsection \<open>What the filter removes\<close>

text \<open>
  Claim C3, as amended. Whenever \<open>minput_2d_vector\<close> returns a record, no NaN appears
  among the forwarded u values or among the forwarded v values. The filter is
  \<^verbatim>\<open>np.isnan\<close>, so infinite values are forwarded.
\<close>

theorem minput_2d_vector_no_nan:
  assumes "minput_2d_vector udata vdata lon lat skip metadata = Inr (Some r)"
  shows "(\<forall>x \<in> set (input_x_component_values r). \<not> isnan x) \<and>
         (\<forall>y \<in> set (input_y_component_values r). \<not> isnan y)"
proof -
  from minput_2d_vector_stages(1) [OF assms] obtain us vs :: "f64 ndarray" and index where
    b: "broadcast_and (map (\<lambda>x. \<not> isnan x) (nd_data us)) (map (\<lambda>x. \<not> isnan x) (nd_data vs)) = Inr index"
    and x: "boolean_index index (nd_data us) = Inr (input_x_component_values r)"
    and y: "boolean_index index (nd_data vs) = Inr (input_y_component_values r)"
    by auto
  note jf = joint_filter [OF b x y]
  show ?thesis
    unfolding jf(3) jf(4) by auto
qed

theorem minput_2d_vector_no_nan_witness:
  "list_all (\<lambda>x. \<not> isnan x) [PInf, Fin 2] \<and> list_all (\<lambda>y. \<not> isnan y) [Fin 3, Fin 5]"
proof -
  have e: "minput_2d_vector example_u example_v example_lon example_lat 1 None =
    Inr (Some \<lparr>input_type = Some ''geographical'',
          input_metadata = Some [(''units'', ''m/s''), (''long_name'', ''wind field'')],
          input_x_component_values = [PInf, Fin 2],
          input_y_component_values = [Fin 3, Fin 5],
          input_latitude_values = [Fin 30, Fin 31],
          input_longitude_values = [Fin 100, Fin 101]\<rparr>)"
    by code_simp
  from minput_2d_vector_no_nan [OF e] show ?thesis by (simp add: list_all_iff)
qed

text \<open>
  Claim C3 as stated (no non-finite value is forwarded) fails: on the example field the
  forwarded u values contain \<open>+\<infinity>\<close>.
\<close>

theorem minput_2d_vector_finite_counterexample:
  "minput_2d_vector example_u example_v example_lon example_lat 1 None =
     Inr (Some \<lparr>input_type = Some ''geographical'',
          input_metadata = Some [(''units'', ''m/s''), (''long_name'', ''wind field'')],
          input_x_component_values = [PInf, Fin 2],
          input_y_component_values = [Fin 3, Fin 5],
          input_latitude_values = [Fin 30, Fin 31],
          input_longitude_values = [Fin 100, Fin 101]\<rparr>) \<and>
   \<not> list_all isfinite [PInf, Fin 2]"
  by code_simp

subsection \<open>The number of forwarded points\<close>

text \<open>
  Claim C4, as amended. For a u/v grid of \<open>nlat\<close> by \<open>nlon\<close> points and a stride
  \<open>s \<ge> 1\<close>, the number of forwarded points is at most \<open>\<lceil>nlat / s\<rceil> * \<lceil>nlon / s\<rceil>\<close>, and
  never more than the number of grid points.
\<close>

theorem minput_2d_vector_point_count:
  assumes "is_grid nlat nlon udata" and "is_grid nlat nlon vdata"
    and "nd_size lat = nlat" and "nd_size lon = nlon" and "1 \<le> skip"
    and "minput_2d_vector udata vdata lon lat skip metadata = Inr (Some r)"
  shows "int (length (input_x_component_values r)) \<le> ceil_div nlat (nat skip) * ceil_div nlon (nat skip) \<and>
         length (input_y_component_values r) = length (input_x_component_values r) \<and>
         length (input_x_component_values r) \<le> nd_size udata"
proof -
  from assms(5) have s: "skip \<noteq> 0" by simp
  define pts where "pts = surviving_points udata vdata nlat nlon skip"
  from assms(6) have x: "input_x_component_values r = map (grid_value udata nlon) pts"
    and y: "input_y_component_values r = map (grid_value vdata nlon) pts"
    unfolding minput_2d_vector_grid [OF assms(1-4) s] Let_def pts_def
    by (auto split: if_splits)
  have "length pts \<le> length (grid_points nlat nlon skip)"
    by (simp add: pts_def surviving_points_def)
  then have le: "length pts \<le> slice_count nlat skip * slice_count nlon skip"
    by (simp add: length_grid_points)
  then have "int (length pts) \<le> int (slice_count nlat skip) * int (slice_count nlon skip)"
    by (metis of_nat_le_iff of_nat_mult)
  then have 1: "int (length pts) \<le> ceil_div nlat (nat skip) * ceil_div nlon (nat skip)"
    using assms(5) by (simp add: slice_count_ceil)
  have "slice_count nlat skip * slice_count nlon skip \<le> nlat * nlon"
    by (intro mult_le_mono slice_count_le)
  with le have 2: "length pts \<le> nd_size udata"
    using is_grid_size [OF assms(1)] by (simp add: nd_size_def)
  show ?thesis using 1 2 by (simp add: x y)
qed

theorem minput_2d_vector_point_count_witness:
  "int (length [Fin 1, Fin 3, Fin 7, Fin 9]) \<le> ceil_div 3 (nat 2) * ceil_div 3 (nat 2) \<and>
   length [Fin 1, Fin 3, Fin 7, Fin 9 :: f64] = length [Fin 1, Fin 3, Fin 7, Fin 9 :: f64] \<and>
   length [Fin 1, Fin 3, Fin 7, Fin 9 :: f64] \<le> nd_size example_grid3"
proof -
  have g: "is_grid 3 3 example_grid3" "nd_size example_axis3 = 3" "(1::int) \<le> 2"
    by code_simp+
  have e: "minput_2d_vector example_grid3 example_grid3 example_axis3 example_axis3 2 None =
     Inr (Some \<lparr>input_type = Some ''geographical'',
          input_metadata = Some [(''units'', ''m/s''), (''long_name'', ''wind field'')],
          input_x_component_values = [Fin 1, Fin 3, Fin 7, Fin 9],
          input_y_component_values = [Fin 1, Fin 3, Fin 7, Fin 9],
          input_latitude_values = [Fin 10, Fin 10, Fin 30, Fin 30],
          input_longitude_values = [Fin 10, Fin 30, Fin 10, Fin 30]\<rparr>)"
    by code_simp
  from minput_2d_vector_point_count [OF g(1) g(1) g(2) g(2) g(3) e] show ?thesis
    by simp
qed

text \<open>
  Claim C4 as stated fails: a 3 by 3 grid has 9 points, stride 2 keeps the rows and
  columns 0 and 2, and the 4 forwarded points are more than \<open>9 / 2\<^sup>2\<close>.
\<close>

theorem minput_2d_vector_point_count_counterexample:
  "minput_2d_vector example_grid3 example_grid3 example_axis3 example_axis3 2 None =
     Inr (Some \<lparr>input_type = Some ''geographical'',
          input_metadata = Some [(''units'', ''m/s''), (''long_name'', ''wind field'')],
          input_x_component_values = [Fin 1, Fin 3, Fin 7, Fin 9],
          input_y_component_values = [Fin 1, Fin 3, Fin 7, Fin 9],
          input_latitude_values = [Fin 10, Fin 10, Fin 30, Fin 30],
          input_longitude_values = [Fin 10, Fin 30, Fin 10, Fin 30]\<rparr>) \<and>
   nd_size example_grid3 = 9 \<and>
   \<not> (real (length [Fin 1, Fin 3, Fin 7, Fin 9 :: f64]) \<le> real 9 / 2\<^sup>2)"
proof -
  have "minput_2d_vector example_grid3 example_grid3 example_axis3 example_axis3 2 None =
     Inr (Some \<lparr>input_type = Some ''geographical'',
          input_metadata = Some [(''units'', ''m/s''), (''long_name'', ''wind field'')],
          input_x_component_values = [Fin 1, Fin 3, Fin 7, Fin 9],
          input_y_component_values = [Fin 1, Fin 3, Fin 7, Fin 9],
          input_latitude_values = [Fin 10, Fin 10, Fin 30, Fin 30],
          input_longitude_values = [Fin 10, Fin 30, Fin 10, Fin 30]\<rparr>)"
    by code_simp
  moreover have "nd_size example_grid3 = 9"
    by code_simp
  moreover have "\<not> (real (length [Fin 1, Fin 3, Fin 7, Fin 9 :: f64]) \<le> real 9 / 2\<^sup>2)"
    by simp
  ultimately show ?thesis by blast
qed

subsection \<open>Co-indexing\<close>








subsection \<open>Metadata of the vector adapter\<close>

lemma minput_2d_vector_metadata_only:
  "minput_2d_vector udata vdata lon lat skip metadata =
     (case minput_2d_vector udata vdata lon lat skip metadata' of
        Inl e \<Rightarrow> Inl e
      | Inr None \<Rightarrow> Inr None
      | Inr (Some r) \<Rightarrow>
          Inr (Some (r\<lparr>input_metadata :=
                          Some (case metadata of
                                  None \<Rightarrow> [(''units'', ''m/s''), (''long_name'', ''wind field'')]
                                | Some m \<Rightarrow> m)\<rparr>)))"
  by (simp add: minput_2d_vector_def Let_def split: sum.splits prod.splits)

text \<open>
  Claim C7. Called with \<^verbatim>\<open>metadata=None\<close>, \<open>minput_2d_vector\<close> forwards exactly the
  default mapping \<^verbatim>\<open>{'units': 'm/s', 'long_name': 'wind field'}\<close>; a mapping the caller
  supplies is forwarded unmodified. The metadata argument decides nothing else: the
  call with \<^verbatim>\<open>None\<close> returns a record exactly when the call with a mapping does, the two
  records differ in the metadata only, and a record is forwarded whenever some strided
  position survives the filter and the coordinate meshes have the size of the
  components.
\<close>

theorem minput_2d_vector_metadata:
  "(minput_2d_vector udata vdata lon lat skip None = Inr (Some r) \<longrightarrow>
      input_metadata r = Some [(''units'', ''m/s''), (''long_name'', ''wind field'')]) \<and>
   (minput_2d_vector udata vdata lon lat skip (Some m) = Inr (Some r') \<longrightarrow>
      input_metadata r' = Some m) \<and>
   (minput_2d_vector udata vdata lon lat skip (Some m) = Inr (Some r') \<longrightarrow>
      minput_2d_vector udata vdata lon lat skip None
        = Inr (Some (r'\<lparr>input_metadata := Some [(''units'', ''m/s''), (''long_name'', ''wind field'')]\<rparr>))) \<and>
   (minput_2d_vector udata vdata lon lat skip None = Inr (Some r) \<longrightarrow>
      minput_2d_vector udata vdata lon lat skip (Some m) = Inr (Some (r\<lparr>input_metadata := Some m\<rparr>))) \<and>
   (strided skip udata = Inr us \<and> strided skip vdata = Inr vs \<and> length us = length vs \<and>
    filter survives (zip us vs) \<noteq> [] \<and>
    length us = slice_count (nd_size lat) skip * slice_count (nd_size lon) skip \<longrightarrow>
      (\<exists>r0. minput_2d_vector udata vdata lon lat skip None = Inr (Some r0) \<and>
            input_metadata r0 = Some [(''units'', ''m/s''), (''long_name'', ''wind field'')]) \<and>
      (\<exists>r1. minput_2d_vector udata vdata lon lat skip (Some m) = Inr (Some r1) \<and>
            input_metadata r1 = Some m))"
proof (intro conjI impI)
  assume "minput_2d_vector udata vdata lon lat skip None = Inr (Some r)"
  then show "input_metadata r = Some [(''units'', ''m/s''), (''long_name'', ''wind field'')]"
    using minput_2d_vector_stages(2) [of udata vdata lon lat skip None r] by simp
next
  assume "minput_2d_vector udata vdata lon lat skip (Some m) = Inr (Some r')"
  then show "input_metadata r' = Some m"
    using minput_2d_vector_stages(2) [of udata vdata lon lat skip "Some m" r'] by simp
next
  assume "minput_2d_vector udata vdata lon lat skip (Some m) = Inr (Some r')"
  then show "minput_2d_vector udata vdata lon lat skip None
        = Inr (Some (r'\<lparr>input_metadata := Some [(''units'', ''m/s''), (''long_name'', ''wind field'')]\<rparr>))"
    using minput_2d_vector_metadata_only [of udata vdata lon lat skip None "Some m"] by simp
next
  assume "minput_2d_vector udata vdata lon lat skip None = Inr (Some r)"
  then show "minput_2d_vector udata vdata lon lat skip (Some m) = Inr (Some (r\<lparr>input_metadata := Some m\<rparr>))"
    using minput_2d_vector_metadata_only [of udata vdata lon lat skip "Some m" None] by simp
next
  assume a: "strided skip udata = Inr us \<and> strided skip vdata = Inr vs \<and> length us = length vs \<and>
    filter survives (zip us vs) \<noteq> [] \<and>
    length us = slice_count (nd_size lat) skip * slice_count (nd_size lon) skip"
  then have f: "strided skip udata = Inr us" "strided skip vdata = Inr vs" "length us = length vs"
    by simp_all
  from a show "\<exists>r0. minput_2d_vector udata vdata lon lat skip None = Inr (Some r0) \<and>
            input_metadata r0 = Some [(''units'', ''m/s''), (''long_name'', ''wind field'')]"
    unfolding minput_2d_vector_filtered [OF f] length_grid_points by simp
  from a show "\<exists>r1. minput_2d_vector udata vdata lon lat skip (Some m) = Inr (Some r1) \<and>
            input_metadata r1 = Some m"
    unfolding minput_2d_vector_filtered [OF f] length_grid_points by simp
qed

theorem minput_2d_vector_metadata_witness:
  "minput_2d_vector example_u example_v example_lon example_lat 1 None =
     Inr (Some \<lparr>input_type = Some ''geographical'',
          input_metadata = Some [(''units'', ''m/s''), (''long_name'', ''wind field'')],
          input_x_component_values = [PInf, Fin 2],
          input_y_component_values = [Fin 3, Fin 5],
          input_latitude_values = [Fin 30, Fin 31],
          input_longitude_values = [Fin 100, Fin 101]\<rparr>) \<and>
   minput_2d_vector example_u example_v example_lon example_lat 1 (Some [(''units'', ''knots'')]) =
     Inr (Some \<lparr>input_type = Some ''geographical'',
          input_metadata = Some [(''units'', ''knots'')],
          input_x_component_values = [PInf, Fin 2],
          input_y_component_values = [Fin 3, Fin 5],
          input_latitude_values = [Fin 30, Fin 31],
          input_longitude_values = [Fin 100, Fin 101]\<rparr>)"
proof -
  have e2: "minput_2d_vector example_u example_v example_lon example_lat 1 (Some [(''units'', ''knots'')]) =
    Inr (Some \<lparr>input_type = Some ''geographical'',
          input_metadata = Some [(''units'', ''knots'')],
          input_x_component_values = [PInf, Fin 2],
          input_y_component_values = [Fin 3, Fin 5],
          input_latitude_values = [Fin 30, Fin 31],
          input_longitude_values = [Fin 100, Fin 101]\<rparr>)"
    by code_simp
  note t = minput_2d_vector_metadata [of example_u example_v example_lon example_lat 1 _
      "[(''units'', ''knots'')]" _]
  from t [THEN conjunct2, THEN conjunct2, THEN conjunct1, rule_format, OF e2]
  have e1: "minput_2d_vector example_u example_v example_lon example_lat 1 None =
     Inr (Some \<lparr>input_type = Some ''geographical'',
          input_metadata = Some [(''units'', ''m/s''), (''long_name'', ''wind field'')],
          input_x_component_values = [PInf, Fin 2],
          input_y_component_values = [Fin 3, Fin 5],
          input_latitude_values = [Fin 30, Fin 31],
          input_longitude_values = [Fin 100, Fin 101]\<rparr>)"
    by simp
  from e1 e2 show ?thesis by (rule conjI)
qed

subsection \<open>The scalar adapter\<close>

text \<open>
  Claim C9, as amended. \<open>minput_2d\<close> forwards the field unfiltered: the forwarded
  \<open>input_field\<close> is the cast and squeezed input, a well-formed array with exactly the
  elements of the input in the same order (NaN and infinities included), and its shape
  is the shape of the input without the axes of length one. So for an input of shape
  \<open>(len(lat), len(lon))\<close> the forwarded field has that shape exactly when neither length
  is 1.
\<close>

theorem minput_2d_forwards_field:
  "input_field (minput_2d data lon lat metadata) = squeeze (astype_float64 data) \<and>
   nd_data (input_field (minput_2d data lon lat metadata)) = nd_data data \<and>
   nd_shape (input_field (minput_2d data lon lat metadata)) = filter (\<lambda>d. d \<noteq> 1) (nd_shape data) \<and>
   (nd_valid data \<longrightarrow> nd_valid (input_field (minput_2d data lon lat metadata))) \<and>
   (nd_shape data = [nd_size lat, nd_size lon] \<longrightarrow>
      (nd_shape (input_field (minput_2d data lon lat metadata)) = [nd_size lat, nd_size lon]
         \<longleftrightarrow> nd_size lat \<noteq> 1 \<and> nd_size lon \<noteq> 1))"
proof (intro conjI impI)
  show f: "input_field (minput_2d data lon lat metadata) = squeeze (astype_float64 data)"
    by (simp add: minput_2d_def Let_def)
  show "nd_data (input_field (minput_2d data lon lat metadata)) = nd_data data"
    unfolding f by (simp add: astype_float64_def squeeze_def)
  show s: "nd_shape (input_field (minput_2d data lon lat metadata)) = filter (\<lambda>d. d \<noteq> 1) (nd_shape data)"
    unfolding f by (simp add: astype_float64_def squeeze_def)
  show "nd_valid (input_field (minput_2d data lon lat metadata))" if "nd_valid data"
    using that prod_list_squeeze [of "nd_shape data"]
    unfolding f by (simp add: nd_valid_def astype_float64_def squeeze_def)
  show "nd_shape (input_field (minput_2d data lon lat metadata)) = [nd_size lat, nd_size lon]
         \<longleftrightarrow> nd_size lat \<noteq> 1 \<and> nd_size lon \<noteq> 1"
    if "nd_shape data = [nd_size lat, nd_size lon]"
    unfolding s that by auto
qed

theorem minput_2d_forwards_field_witness:
  "input_field (minput_2d example_u example_lon example_lat None)
     = \<lparr>nd_shape = [2, 2], nd_data = [PInf, Fin 1, NaN, Fin 2]\<rparr> \<and>
   nd_valid (input_field (minput_2d example_u example_lon example_lat None)) \<and>
   nd_shape (input_field (minput_2d example_u example_lon example_lat None))
     = [nd_size example_lat, nd_size example_lon]"
proof -
  have h: "nd_shape example_u = [nd_size example_lat, nd_size example_lon]"
    "nd_size example_lat \<noteq> 1 \<and> nd_size example_lon \<noteq> 1" "nd_valid example_u"
    by code_simp+
  have s: "squeeze (astype_float64 example_u) = \<lparr>nd_shape = [2, 2], nd_data = [PInf, Fin 1, NaN, Fin 2]\<rparr>"
    by code_simp
  note t = minput_2d_forwards_field [of example_u example_lon example_lat None]
  from t [THEN conjunct1] s
  have 1: "input_field (minput_2d example_u example_lon example_lat None)
     = \<lparr>nd_shape = [2, 2], nd_data = [PInf, Fin 1, NaN, Fin 2]\<rparr>"
    by (rule trans)
  from t h(3) have 2: "nd_valid (input_field (minput_2d example_u example_lon example_lat None))"
    by blast
  from t h(1) h(2)
  have 3: "nd_shape (input_field (minput_2d example_u example_lon example_lat None))
     = [nd_size example_lat, nd_size example_lon]"
    by blast
  from 1 2 3 show ?thesis by blast
qed

text \<open>
  Claim C9 as stated fails on a grid of one row: its shape \<^verbatim>\<open>[1, 3]\<close> is
  \<open>(len(lat), len(lon))\<close>, and the forwarded field has shape \<^verbatim>\<open>[3]\<close>.
\<close>

theorem minput_2d_forwards_field_counterexample:
  "nd_shape example_row = [nd_size example_lat1, nd_size example_axis3] \<and>
   nd_shape (input_field (minput_2d example_row example_axis3 example_lat1 None)) = [3] \<and>
   nd_shape (input_field (minput_2d example_row example_axis3 example_lat1 None))
     \<noteq> [nd_size example_lat1, nd_size example_axis3]"
  by code_simp

subsection \<open>The zero stride\<close>

lemma minput_2d_vector_zero_step_axes:
  assumes "2 \<le> length (nd_shape (squeeze udata))"
  shows "minput_2d_vector udata vdata lon lat 0 metadata = Inl ValueError_slice_step_zero"
proof -
  from assms obtain d0 d1 rest where "nd_shape (squeeze udata) = d0 # d1 # rest"
    by (cases "nd_shape (squeeze udata)"; cases "tl (nd_shape (squeeze udata))") auto
  then show ?thesis
    by (simp add: minput_2d_vector_def astype_float64_def slice2_def Let_def split: prod.splits)
qed

lemma example_returns:
  assumes "skip \<noteq> 0"
  shows "\<exists>res. minput_2d_vector example_u example_v example_lon example_lat skip metadata = Inr res"
proof -
  have g: "is_grid 2 2 example_u" "is_grid 2 2 example_v"
    "nd_size example_lat = 2" "nd_size example_lon = 2"
    by code_simp+
  show ?thesis
    unfolding minput_2d_vector_grid [OF g assms] by (simp add: Let_def)
qed

text \<open>
  Claim C10, as amended. \<open>minput_2d_vector\<close> returns normally only for \<open>skip \<noteq> 0\<close>: with
  \<open>skip = 0\<close>, a value \<open>get_skip_vector\<close> returns when the region leaves both coordinate
  vectors empty, the stride slicing fails on every input (with the zero slice step as
  soon as the squeezed u has two axes), so the adapter raises instead of returning a
  record. Zero is the only such stride: the example field is returned normally for
  every other value of \<open>skip\<close>, negative ones included.
\<close>

theorem minput_2d_vector_zero_skip:
  "(minput_2d_vector udata vdata lon lat skip metadata = Inr res \<longrightarrow> skip \<noteq> 0) \<and>
   (minput_2d_vector udata vdata lon lat 0 metadata = Inl ValueError_slice_step_zero \<or>
    minput_2d_vector udata vdata lon lat 0 metadata = Inl IndexError_too_many_indices) \<and>
   (2 \<le> length (nd_shape (squeeze udata)) \<longrightarrow>
      minput_2d_vector udata vdata lon lat 0 metadata = Inl ValueError_slice_step_zero) \<and>
   (4 \<le> length region \<and> count_within (region ! 0) (region ! 1) xs = 0 \<and>
    count_within (region ! 2) (region ! 3) ys = 0 \<longrightarrow>
      get_skip_vector xs ys (Some region) = Inr 0) \<and>
   (skip \<noteq> 0 \<longrightarrow>
      (\<exists>res'. minput_2d_vector example_u example_v example_lon example_lat skip metadata = Inr res'))"
proof (intro conjI impI)
  assume r: "minput_2d_vector udata vdata lon lat skip metadata = Inr res"
  show "skip \<noteq> 0"
  proof
    assume "skip = 0"
    with minput_2d_vector_zero_step [of udata vdata lon lat metadata] r
    show False by auto
  qed
next
  show "minput_2d_vector udata vdata lon lat 0 metadata = Inl ValueError_slice_step_zero \<or>
    minput_2d_vector udata vdata lon lat 0 metadata = Inl IndexError_too_many_indices"
    by (rule minput_2d_vector_zero_step)
next
  assume "2 \<le> length (nd_shape (squeeze udata))"
  then show "minput_2d_vector udata vdata lon lat 0 metadata = Inl ValueError_slice_step_zero"
    by (rule minput_2d_vector_zero_step_axes)
next
  assume "4 \<le> length region \<and> count_within (region ! 0) (region ! 1) xs = 0 \<and>
    count_within (region ! 2) (region ! 3) ys = 0"
  then show "get_skip_vector xs ys (Some region) = Inr 0"
    by (simp add: get_skip_vector_region ceil_div_def)
next
  assume "skip \<noteq> 0"
  then show "\<exists>res'. minput_2d_vector example_u example_v example_lon example_lat skip metadata = Inr res'"
    by (rule example_returns)
qed

theorem minput_2d_vector_zero_skip_witness:
  "get_skip_vector [Fin 100, Fin 101] [Fin 30, Fin 31] (Some [Fin 0, Fin 10, Fin 40, Fin 50]) = Inr 0 \<and>
   minput_2d_vector example_u example_v example_lon example_lat 0 None = Inl ValueError_slice_step_zero \<and>
   (\<exists>res. minput_2d_vector example_u example_v example_lon example_lat (- 2) None = Inr res)"
proof -
  have a: "2 \<le> length (nd_shape (squeeze example_u))" "(- 2 :: int) \<noteq> 0"
    by code_simp+
  have c: "4 \<le> length [Fin 0, Fin 10, Fin 40, Fin 50] \<and>
    count_within ([Fin 0, Fin 10, Fin 40, Fin 50] ! 0) ([Fin 0, Fin 10, Fin 40, Fin 50] ! 1) [Fin 100, Fin 101] = 0 \<and>
    count_within ([Fin 0, Fin 10, Fin 40, Fin 50] ! 2) ([Fin 0, Fin 10, Fin 40, Fin 50] ! 3) [Fin 30, Fin 31] = 0"
    by code_simp
  note t = minput_2d_vector_zero_skip [of example_u example_v example_lon example_lat "- 2" None _
      "[Fin 0, Fin 10, Fin 40, Fin 50]" "[Fin 100, Fin 101]" "[Fin 30, Fin 31]"]
  from t c have 1: "get_skip_vector [Fin 100, Fin 101] [Fin 30, Fin 31] (Some [Fin 0, Fin 10, Fin 40, Fin 50]) = Inr 0"
    by blast
  from t a(1) have 2: "minput_2d_vector example_u example_v example_lon example_lat 0 None = Inl ValueError_slice_step_zero"
    by blast
  from t a(2) have 3: "\<exists>res. minput_2d_vector example_u example_v example_lon example_lat (- 2) None = Inr res"
    by blast
  from 1 2 3 show ?thesis by blast
qed

text \<open>
  Claim C10 as stated (a normal return only for \<open>skip \<ge> 1\<close>) fails: with \<open>skip = -1\<close> the
  slices run backwards and the adapter returns a record.
\<close>

theorem minput_2d_vector_negative_skip_counterexample:
  "minput_2d_vector example_u example_v example_lon example_lat (- 1) None =
     Inr (Some \<lparr>input_type = Some ''geographical'',
          input_metadata = Some [(''units'', ''m/s''), (''long_name'', ''wind field'')],
          input_x_component_values = [Fin 2, PInf],
          input_y_component_values = [Fin 5, Fin 3],
          input_latitude_values = [Fin 31, Fin 30],
          input_longitude_values = [Fin 101, Fin 100]\<rparr>) \<and>
   \<not> (1 \<le> (- 1 :: int))"
  by code_simp

subsection \<open>The labelled-dataset vector adapter\<close>

lemma minput_xarray_vector_ignores_names:
  "minput_xarray_vector uwind vwind u_varname v_varname skip metadata
     = minput_xarray_vector uwind vwind u_varname' v_varname' skip metadata"
  by (simp add: minput_xarray_vector_def)

text \<open>
  Claim C6 does not hold of the code. On a dataset whose wind component is the variable
  \<^verbatim>\<open>data\<close>, called with \<^verbatim>\<open>u_varname='data'\<close> and \<^verbatim>\<open>v_varname='data'\<close>,
  \<open>minput_xarray_vector\<close> raises a KeyError for the name \<^verbatim>\<open>u_varname\<close>: it looks the
  variables up under the quoted parameter names. The scalar adapter \<open>minput_xarray\<close>
  reads the variable its \<open>varname\<close> parameter names and succeeds on the same dataset.
\<close>

theorem minput_xarray_vector_literal_names:
  "minput_xarray_vector example_dataset example_dataset ''data'' ''data'' 1 Omitted
     = Inl (KeyError ''u_varname'') \<and>
   minput_xarray example_dataset ''data'' None
     = Inr \<lparr>input_type = None, input_metadata = Some [(''units'', ''knots'')],
            input_field = \<lparr>nd_shape = [2, 2], nd_data = [Fin 1, Fin 2, Fin 3, Fin 4]\<rparr>,
            input_latitudes_list = \<lparr>nd_shape = [2], nd_data = [Fin 30, Fin 31]\<rparr>,
            input_longitudes_list = \<lparr>nd_shape = [2], nd_data = [Fin 100, Fin 101]\<rparr>\<rparr>"
  by code_simp

text \<open>
  Claim C8, as amended. When the caller omits \<open>metadata\<close>, \<open>minput_xarray_vector\<close> forwards
  its own default \<^verbatim>\<open>{'units': 'm/s', 'long_name': 'Wind field'}\<close>, which is not the
  default of the array-form adapter (\<^verbatim>\<open>'wind field'\<close>): the two differ in the capital W.
\<close>

theorem minput_xarray_vector_default_metadata:
  assumes "minput_xarray_vector uwind vwind u_varname v_varname skip Omitted = Inr r"
  shows "input_metadata r = Some [(''units'', ''m/s''), (''long_name'', ''Wind field'')] \<and>
         (\<forall>udata vdata lon lat skip' r'.
            minput_2d_vector udata vdata lon lat skip' None = Inr (Some r')
              \<longrightarrow> input_metadata r' \<noteq> input_metadata r)"
proof -
  from assms have m: "input_metadata r = Some [(''units'', ''m/s''), (''long_name'', ''Wind field'')]"
    by (auto simp: minput_xarray_vector_def Let_def split: sum.splits prod.splits)
  have "input_metadata r' \<noteq> input_metadata r"
    if "minput_2d_vector udata vdata lon lat skip' None = Inr (Some r')"
    for udata vdata lon lat skip' r'
    using minput_2d_vector_stages(2) [OF that] m by simp
  with m show ?thesis by blast
qed

theorem minput_xarray_vector_default_metadata_witness:
  "Some [(''units'', ''m/s''), (''long_name'', ''Wind field'')]
     = Some [(''units'', ''m/s''), (''long_name'', ''Wind field'')] \<and>
   Some [(''units'', ''m/s''), (''long_name'', ''wind field'')]
     \<noteq> Some [(''units'', ''m/s''), (''long_name'', ''Wind field'')]"
proof -
  have e: "minput_xarray_vector example_literal_dataset example_literal_dataset ''data'' ''data'' 1 Omitted =
     Inr \<lparr>input_type = Some ''geographical'',
          input_metadata = Some [(''units'', ''m/s''), (''long_name'', ''Wind field'')],
          input_x_component_values = [Fin 1, Fin 2, Fin 3, Fin 4],
          input_y_component_values = [Fin 1, Fin 2, Fin 3, Fin 4],
          input_latitude_values = [Fin 30, Fin 30, Fin 31, Fin 31],
          input_longitude_values = [Fin 100, Fin 101, Fin 100, Fin 101]\<rparr>"
    by code_simp
  have e2: "minput_2d_vector example_u example_v example_lon example_lat 1 None =
    Inr (Some \<lparr>input_type = Some ''geographical'',
          input_metadata = Some [(''units'', ''m/s''), (''long_name'', ''wind field'')],
          input_x_component_values = [PInf, Fin 2],
          input_y_component_values = [Fin 3, Fin 5],
          input_latitude_values = [Fin 30, Fin 31],
          input_longitude_values = [Fin 100, Fin 101]\<rparr>)"
    by code_simp
  note t = minput_xarray_vector_default_metadata [OF e]
  from t [THEN conjunct1] have 1: "Some [(''units'', ''m/s''), (''long_name'', ''Wind field'')]
     = Some [(''units'', ''m/s''), (''long_name'', ''Wind field'')]"
    by simp
  from t [THEN conjunct2, rule_format, OF e2]
  have 2: "Some [(''units'', ''m/s''), (''long_name'', ''wind field'')]
     \<noteq> Some [(''units'', ''m/s''), (''long_name'', ''Wind field'')]"
    by simp
  from 1 2 show ?thesis by blast
qed

text \<open>
  Claim C8 as stated (the same default as the array form) fails: on a call that omits
  \<open>metadata\<close> the forwarded mapping is not \<^verbatim>\<open>{'units': 'm/s', 'long_name': 'wind field'}\<close>.
\<close>

theorem minput_xarray_vector_default_counterexample:
  "minput_xarray_vector example_literal_dataset example_literal_dataset ''data'' ''data'' 1 Omitted =
     Inr \<lparr>input_type = Some ''geographical'',
          input_metadata = Some [(''units'', ''m/s''), (''long_name'', ''Wind field'')],
          input_x_component_values = [Fin 1, Fin 2, Fin 3, Fin 4],
          input_y_component_values = [Fin 1, Fin 2, Fin 3, Fin 4],
          input_latitude_values = [Fin 30, Fin 30, Fin 31, Fin 31],
          input_longitude_values = [Fin 100, Fin 101, Fin 100, Fin 101]\<rparr> \<and>
   Some [(''units'', ''m/s''), (''long_name'', ''Wind field'')]
     \<noteq> Some [(''units'', ''m/s''), (''long_name'', ''wind field'')]"
  by code_simp

end
